theory Spec2Isabelle
  imports Main "HOL-Library.Monad_Syntax" "HOL-Library.Word"
begin

section \<open>Go run time and standard library, as far as the client uses them\<close>

text \<open>
  Go strings are byte sequences: they are \<open>string\<close> (a \<open>char list\<close>) here, and an index is a
  byte offset. A Go function that reads a slice out of range panics; such functions get the
  result type \<open>'a option\<close>, where \<open>None\<close> is the run-time panic and \<open>Some\<close> the normal
  return. A Go \<open>(value, error)\<close> pair is a pair whose second part is an \<open>error option\<close>,
  \<open>None\<close> being the nil error. An \<open>int64\<close> is a HOL \<open>int\<close>; the parsers below keep it
  inside the 64-bit range and the client does no arithmetic on it.
\<close>

definition elem_at :: "'a list \<Rightarrow> nat \<Rightarrow> 'a option" where
  \<comment> \<open>\<open>xs[i]\<close>: panics out of range.\<close>
  "elem_at xs i = (if i < length xs then Some (xs ! i) else None)"

subsection \<open>Package strings\<close>

fun HasPrefix :: "string \<Rightarrow> string \<Rightarrow> bool" where
  "HasPrefix s [] = True"
| "HasPrefix [] (p # ps) = False"
| "HasPrefix (c # cs) (p # ps) = (c = p \<and> HasPrefix cs ps)"

fun Index :: "string \<Rightarrow> string \<Rightarrow> nat option" where
  \<comment> \<open>The offset of the first occurrence of \<open>sep\<close>; \<open>None\<close> is Go's \<open>-1\<close>.\<close>
  "Index [] sep = (if sep = [] then Some 0 else None)"
| "Index (c # cs) sep =
     (if HasPrefix (c # cs) sep then Some 0 else map_option Suc (Index cs sep))"

fun genSplit :: "nat \<Rightarrow> string \<Rightarrow> string \<Rightarrow> string list" where
  \<comment> \<open>The loop of \<open>strings.genSplit\<close> for a non-empty separator: at most \<open>n\<close> more cuts,
     the last piece is the unsplit remainder.\<close>
  "genSplit 0 s sep = [s]"
| "genSplit (Suc n) s sep =
     (case Index s sep of
        None \<Rightarrow> [s]
      | Some m \<Rightarrow> take m s # genSplit n (drop (m + length sep) s) sep)"

definition SplitN :: "string \<Rightarrow> string \<Rightarrow> int \<Rightarrow> string list" where
  \<comment> \<open>\<open>strings.SplitN\<close>. \<open>n = 0\<close> gives nil, \<open>n < 0\<close> all pieces, \<open>n > 0\<close> at most \<open>n\<close>
     pieces. Every cut consumes at least one byte, so \<open>length s\<close> cuts are as good as
     Go's count of the separators. The client only splits at the non-empty separators
     \<open>","\<close>, \<open>"="\<close> and tab; Go's branch for an empty separator (cut into UTF-8
     sequences) is not modelled.\<close>
  "SplitN s sep n =
     (if n = 0 then []
      else if n < 0 then genSplit (length s) s sep
      else genSplit (nat n - 1) s sep)"

definition Split :: "string \<Rightarrow> string \<Rightarrow> string list" where
  "Split s sep = SplitN s sep (- 1)"

fun Join :: "string list \<Rightarrow> string \<Rightarrow> string" where
  "Join [] sep = []"
| "Join [x] sep = x"
| "Join (x # y # ys) sep = x @ sep @ Join (y # ys) sep"

fun IndexByte :: "string \<Rightarrow> char \<Rightarrow> nat option" where
  "IndexByte [] c = None"
| "IndexByte (x # xs) c = (if x = c then Some 0 else map_option Suc (IndexByte xs c))"

definition LastIndexByte :: "string \<Rightarrow> char \<Rightarrow> nat option" where
  "LastIndexByte s c =
     (case IndexByte (rev s) c of None \<Rightarrow> None | Some i \<Rightarrow> Some (length s - 1 - i))"

subsection \<open>Errors\<close>

datatype numerr = ErrSyntax | ErrRange

datatype error =
    NumError string string numerr   \<comment> \<open>\<open>strconv.NumError\<close>: Func, Num, Err\<close>
  | AddrError string string         \<comment> \<open>\<open>net.AddrError\<close>: Err, Addr\<close>
  | OVpnError string                \<comment> \<open>the package's own error type\<close>
  | ErrorString string              \<comment> \<open>\<open>errors.New\<close> and \<open>fmt.Errorf\<close>\<close>

definition NewOVpnError :: "string \<Rightarrow> error" where
  "NewOVpnError m = OVpnError m"

subsection \<open>Package strconv\<close>

definition isDigit :: "char \<Rightarrow> bool" where
  "isDigit c = (let v = (of_char c :: nat) in 48 \<le> v \<and> v \<le> 57)"

definition digitVal :: "char \<Rightarrow> nat" where
  "digitVal c = (of_char c :: nat) - 48"

definition maxUint64 :: nat where
  "maxUint64 = 18446744073709551615"

fun ParseUint_loop :: "nat \<Rightarrow> string \<Rightarrow> nat \<times> numerr option" where
  \<comment> \<open>The byte loop of \<open>strconv.ParseUint(s, 10, 64)\<close>; the first offending byte decides
     between a syntax and a range error.\<close>
  "ParseUint_loop n [] = (n, None)"
| "ParseUint_loop n (c # cs) =
     (if \<not> isDigit c then (0, Some ErrSyntax)
      else if n \<ge> maxUint64 div 10 + 1 then (maxUint64, Some ErrRange)
      else if n * 10 + digitVal c > maxUint64 then (maxUint64, Some ErrRange)
      else ParseUint_loop (n * 10 + digitVal c) cs)"

definition ParseUint :: "string \<Rightarrow> nat \<times> numerr option" where
  "ParseUint s = (if s = [] then (0, Some ErrSyntax) else ParseUint_loop 0 s)"

definition ParseInt :: "string \<Rightarrow> int \<times> error option" where
  \<comment> \<open>\<open>strconv.ParseInt(s, 10, 64)\<close>: an optional sign, then decimal digits. A syntax error
     returns 0, a range error the nearest bound, both with a \<open>NumError\<close> naming the input.\<close>
  "ParseInt s =
     (if s = [] then (0, Some (NumError ''ParseInt'' s ErrSyntax))
      else
        let neg = (hd s = CHR ''-'');
            s1 = (if hd s = CHR ''+'' \<or> hd s = CHR ''-'' then tl s else s);
            r = ParseUint s1
        in if snd r = Some ErrSyntax then (0, Some (NumError ''ParseInt'' s ErrSyntax))
           else if \<not> neg \<and> fst r \<ge> 2 ^ 63
             then (2 ^ 63 - 1, Some (NumError ''ParseInt'' s ErrRange))
           else if neg \<and> fst r > 2 ^ 63
             then (- (2 ^ 63), Some (NumError ''ParseInt'' s ErrRange))
           else (if neg then - int (fst r) else int (fst r), None))"

definition Atoi :: "string \<Rightarrow> int \<times> error option" where
  \<comment> \<open>\<open>strconv.Atoi\<close> on a 64-bit platform: \<open>ParseInt(s, 10, 0)\<close> with the error renamed.\<close>
  "Atoi s =
     (case ParseInt s of
        (v, Some (NumError f num e)) \<Rightarrow> (v, Some (NumError ''Atoi'' num e))
      | r \<Rightarrow> r)"

definition ParseBool :: "string \<Rightarrow> bool \<times> error option" where
  "ParseBool str =
     (if str \<in> {''1'', ''t'', ''T'', ''true'', ''TRUE'', ''True''} then (True, None)
      else if str \<in> {''0'', ''f'', ''F'', ''false'', ''FALSE'', ''False''} then (False, None)
      else (False, Some (NumError ''ParseBool'' str ErrSyntax)))"

fun Itoa_nat :: "nat \<Rightarrow> string" where
  \<comment> \<open>Decimal digits, most significant first; the digit is read from the digit string
     as \<open>strconv\<close> does.\<close>
  "Itoa_nat n =
     (if n < 10 then [''0123456789'' ! n]
      else Itoa_nat (n div 10) @ [''0123456789'' ! (n mod 10)])"

definition Itoa :: "int \<Rightarrow> string" where
  "Itoa i = (if i < 0 then CHR ''-'' # Itoa_nat (nat (- i)) else Itoa_nat (nat i))"

subsection \<open>Package net\<close>

text \<open>
  A \<open>net.IP\<close> is a byte slice; nil is the empty list. \<open>net.ParseIP\<close> itself is not part of
  the repository: every function that calls it takes it as the parameter \<open>pip\<close>, which
  returns nil for text that is not an address. \<open>net.SplitHostPort\<close> is plain string
  handling and is written out.
\<close>

type_synonym IP = "8 word list"

definition addrErr :: "string \<Rightarrow> string \<Rightarrow> string \<times> string \<times> error option" where
  "addrErr a why = ([], [], Some (AddrError why a))"

definition missingPort :: string where
  "missingPort = ''missing port in address''"

definition tooManyColons :: string where
  "tooManyColons = ''too many colons in address''"

definition SplitHostPort_rest ::
  "string \<Rightarrow> string \<Rightarrow> nat \<Rightarrow> nat \<Rightarrow> nat \<Rightarrow> string \<times> string \<times> error option" where
  "SplitHostPort_rest hostport host j k i =
     (if IndexByte (drop j hostport) CHR ''['' \<noteq> None
        then addrErr hostport ''unexpected '[' in address''
      else if IndexByte (drop k hostport) CHR '']'' \<noteq> None
        then addrErr hostport ''unexpected ']' in address''
      else (host, drop (i + 1) hostport, None))"

definition SplitHostPort :: "string \<Rightarrow> string \<times> string \<times> error option" where
  "SplitHostPort hostport =
     (case LastIndexByte hostport CHR '':'' of
        None \<Rightarrow> addrErr hostport missingPort
      | Some i \<Rightarrow>
          if hd hostport = CHR ''['' then
            (case IndexByte hostport CHR '']'' of
               None \<Rightarrow> addrErr hostport ''missing ']' in address''
             | Some e \<Rightarrow>
                 if e + 1 = length hostport then addrErr hostport missingPort
                 else if e + 1 = i
                   then SplitHostPort_rest hostport (take (e - 1) (drop 1 hostport)) 1 (e + 1) i
                 else if hostport ! (e + 1) = CHR '':'' then addrErr hostport tooManyColons
                 else addrErr hostport missingPort)
          else if IndexByte (take i hostport) CHR '':'' \<noteq> None
            then addrErr hostport tooManyColons
          else SplitHostPort_rest hostport (take i hostport) 0 0 i)"

section \<open>ovmgmt\_common.go: addresses\<close>

record IPAddrPort =
  IP :: IP
  Port :: int

definition ParseIPAddr :: "(string \<Rightarrow> IP) \<Rightarrow> string \<Rightarrow> IP \<times> error option" where
  "ParseIPAddr pip s =
     (if pip s = [] then ([], Some (ErrorString (''can't parse ip from '' @ s)))
      else (pip s, None))"

definition ParseIPAddrPort ::
  "(string \<Rightarrow> IP) \<Rightarrow> string \<Rightarrow> IPAddrPort option \<times> error option" where
  \<comment> \<open>The result is a pointer: \<open>None\<close> in the first part is the nil pointer.\<close>
  "ParseIPAddrPort pip s =
     (case SplitHostPort s of
        (host, sPort, Some e) \<Rightarrow> (None, Some e)
      | (host, sPort, None) \<Rightarrow>
          (case ParseIPAddr pip host of
             (ip, Some e) \<Rightarrow> (None, Some e)
           | (ip, None) \<Rightarrow>
               (case Atoi sPort of
                  (port, Some e) \<Rightarrow> (None, Some e)
                | (port, None) \<Rightarrow> (Some \<lparr>IP = ip, Port = port\<rparr>, None))))"

definition SafeParseIP4Addr :: "(string \<Rightarrow> IP) \<Rightarrow> string \<Rightarrow> IP" where
  "SafeParseIP4Addr pip s = (if pip s = [] then pip ''0.0.0.0'' else pip s)"

definition SafeParseIP6Addr :: "(string \<Rightarrow> IP) \<Rightarrow> string \<Rightarrow> IP" where
  "SafeParseIP6Addr pip s = (if pip s = [] then pip ''::'' else pip s)"

section \<open>Rows of the status snapshot\<close>

definition append_err :: "error list \<Rightarrow> error option \<Rightarrow> error list" where
  \<comment> \<open>\<open>if err != nil { c.errs = append(c.errs, err) }\<close>\<close>
  "append_err es err = (case err of None \<Rightarrow> es | Some e \<Rightarrow> es @ [e])"

definition pad_fields :: "nat \<Rightarrow> string list \<Rightarrow> string list" where
  \<comment> \<open>\<open>if len(fields) < max { buf := make([]string, max); copy(buf, fields); fields = buf }\<close>\<close>
  "pad_fields m flds =
     (if length flds < m then flds @ replicate (m - length flds) [] else flds)"

subsection \<open>status3\_client.go\<close>

record Status3Client =
  CommonName :: string
  RealAddr :: "IPAddrPort option"
  VirtualAddr :: IP
  VirtualAddr6 :: IP
  BytesRecv :: int
  BytesSent :: int
  ConnectedSinceRaw :: string
  ConnectedSinceTimestamp :: int
  Username :: string
  ClientId :: int
  PeerId :: int
  DataChannelCipher :: string
  errs :: "error list"

definition CLCommonName :: nat where "CLCommonName = 0"
definition CLRealAddr :: nat where "CLRealAddr = 1"
definition CLVirtualAddr :: nat where "CLVirtualAddr = 2"
definition CLVirtualAddr6 :: nat where "CLVirtualAddr6 = 3"
definition CLBytesRecv :: nat where "CLBytesRecv = 4"
definition CLBytesSent :: nat where "CLBytesSent = 5"
definition CLConnectedSinceRaw :: nat where "CLConnectedSinceRaw = 6"
definition CLConnectedSinceTimestamp :: nat where "CLConnectedSinceTimestamp = 7"
definition CLUsername :: nat where "CLUsername = 8"
definition CLClientId :: nat where "CLClientId = 9"
definition CLPeerId :: nat where "CLPeerId = 10"
definition CLDataChannelCipher :: nat where "CLDataChannelCipher = 11"
definition CLHeaderMax :: nat where "CLHeaderMax = 12"

lemmas CL_defs = CLCommonName_def CLRealAddr_def CLVirtualAddr_def CLVirtualAddr6_def
  CLBytesRecv_def CLBytesSent_def CLConnectedSinceRaw_def CLConnectedSinceTimestamp_def
  CLUsername_def CLClientId_def CLPeerId_def CLDataChannelCipher_def CLHeaderMax_def

definition NewStatus3Client :: "(string \<Rightarrow> IP) \<Rightarrow> string list \<Rightarrow> Status3Client option" where
  "NewStatus3Client pip flds0 = do {
     let flds = pad_fields CLHeaderMax flds0;
     fCommonName \<leftarrow> elem_at flds CLCommonName;
     fRealAddr \<leftarrow> elem_at flds CLRealAddr;
     fVirtualAddr \<leftarrow> elem_at flds CLVirtualAddr;
     fVirtualAddr6 \<leftarrow> elem_at flds CLVirtualAddr6;
     fBytesRecv \<leftarrow> elem_at flds CLBytesRecv;
     fBytesSent \<leftarrow> elem_at flds CLBytesSent;
     fConnectedSinceRaw \<leftarrow> elem_at flds CLConnectedSinceRaw;
     fConnectedSinceTimestamp \<leftarrow> elem_at flds CLConnectedSinceTimestamp;
     fUsername \<leftarrow> elem_at flds CLUsername;
     fClientId \<leftarrow> elem_at flds CLClientId;
     fPeerId \<leftarrow> elem_at flds CLPeerId;
     fDataChannelCipher \<leftarrow> elem_at flds CLDataChannelCipher;
     let ra = ParseIPAddrPort pip fRealAddr;
     let br = ParseInt fBytesRecv;
     let bs = ParseInt fBytesSent;
     let cs = ParseInt fConnectedSinceTimestamp;
     let ci = ParseInt fClientId;
     let pi = ParseInt fPeerId;
     Some \<lparr>CommonName = fCommonName,
           RealAddr = fst ra,
           VirtualAddr = SafeParseIP4Addr pip fVirtualAddr,
           VirtualAddr6 = SafeParseIP6Addr pip fVirtualAddr6,
           BytesRecv = fst br,
           BytesSent = fst bs,
           ConnectedSinceRaw = fConnectedSinceRaw,
           ConnectedSinceTimestamp = fst cs,
           Username = fUsername,
           ClientId = fst ci,
           PeerId = fst pi,
           DataChannelCipher = fDataChannelCipher,
           errs = foldl append_err [] [snd ra, snd br, snd bs, snd cs, snd ci, snd pi]\<rparr>
   }"

definition Status3Client_ParsingErrors :: "Status3Client \<Rightarrow> error list" where
  "Status3Client_ParsingErrors c = errs c"

subsection \<open>The routing-table row\<close>

record Status3Route =
  VirtualAddrFlags :: string
  CommonName :: string
  RealAddr :: "IPAddrPort option"
  LastRefRaw :: string
  LastRefTimestamp :: int
  errs :: "error list"

definition RTVirtualAddrFlags :: nat where "RTVirtualAddrFlags = 0"
definition RTCommonName :: nat where "RTCommonName = 1"
definition RTRealAddr :: nat where "RTRealAddr = 2"
definition RTLastRefRaw :: nat where "RTLastRefRaw = 3"
definition RTLastRefTimestamp :: nat where "RTLastRefTimestamp = 4"
definition RTHeaderMax :: nat where "RTHeaderMax = 5"

lemmas RT_defs = RTVirtualAddrFlags_def RTCommonName_def RTRealAddr_def RTLastRefRaw_def
  RTLastRefTimestamp_def RTHeaderMax_def

definition NewStatus3Route :: "(string \<Rightarrow> IP) \<Rightarrow> string list \<Rightarrow> Status3Route option" where
  "NewStatus3Route pip flds0 = do {
     let flds = pad_fields RTHeaderMax flds0;
     fVirtualAddrFlags \<leftarrow> elem_at flds RTVirtualAddrFlags;
     fCommonName \<leftarrow> elem_at flds RTCommonName;
     fLastRefRaw \<leftarrow> elem_at flds RTLastRefRaw;
     fRealAddr \<leftarrow> elem_at flds RTRealAddr;
     let ra = ParseIPAddrPort pip fRealAddr;
     fLastRefTimestamp \<leftarrow> elem_at flds RTLastRefTimestamp;
     let lr = ParseInt fLastRefTimestamp;
     Some \<lparr>VirtualAddrFlags = fVirtualAddrFlags,
           CommonName = fCommonName,
           RealAddr = fst ra,
           LastRefRaw = fLastRefRaw,
           LastRefTimestamp = fst lr,
           errs = foldl append_err [] [snd ra, snd lr]\<rparr>
   }"

definition Status3Route_ParsingErrors :: "Status3Route \<Rightarrow> error list" where
  "Status3Route_ParsingErrors c = Status3Route.errs c"

section \<open>The status snapshot\<close>

definition status3TitleKW :: string where "status3TitleKW = ''TITLE''"
definition status3TimeKW :: string where "status3TimeKW = ''TIME''"
definition status3HeaderKW :: string where "status3HeaderKW = ''HEADER''"
definition status3ClientListKW :: string where "status3ClientListKW = ''CLIENT_LIST''"
definition status3RoutingTableKW :: string where "status3RoutingTableKW = ''ROUTING_TABLE''"
definition status3FieldSep :: string where "status3FieldSep = [CHR 0x09]"

lemmas status3_defs = status3TitleKW_def status3TimeKW_def status3HeaderKW_def
  status3ClientListKW_def status3RoutingTableKW_def status3FieldSep_def

record Status3Event =
  title :: string
  rawHumanTS :: string
  rawTS :: string
  ts :: int
  clients :: "Status3Client list"
  invalidClients :: "Status3Client list"
  routes :: "Status3Route list"
  invalidRoutes :: "Status3Route list"
  headers :: "string \<rightharpoonup> string list"
  extra :: "string \<rightharpoonup> string list"

definition Status3Event_zero :: Status3Event where
  \<comment> \<open>\<open>Status3Event{}\<close> with the two maps and the two valid lists made empty.\<close>
  "Status3Event_zero =
     \<lparr>title = [], rawHumanTS = [], rawTS = [], ts = 0, clients = [], invalidClients = [],
      routes = [], invalidRoutes = [], headers = Map.empty, extra = Map.empty\<rparr>"

fun status3_lines ::
  "(string \<Rightarrow> IP) \<Rightarrow> string list \<Rightarrow> Status3Event \<Rightarrow> (Status3Event \<times> error option) option" where
  \<comment> \<open>The \<open>for _, line := range payload\<close> loop of \<open>NewStatus3Event\<close>.\<close>
  "status3_lines pip [] se = Some (se, None)"
| "status3_lines pip (line # rest) se = do {
     lineType \<leftarrow> elem_at (Split line status3FieldSep) 0;
     let lineFields = drop 1 (Split line status3FieldSep);
     if lineType = status3TitleKW then
       status3_lines pip rest (se\<lparr>title := Join lineFields status3FieldSep\<rparr>)
     else if lineType = status3TimeKW then do {
       human \<leftarrow> elem_at lineFields 0;
       raw \<leftarrow> elem_at lineFields 1;
       let r = ParseInt raw;
       let se' = se\<lparr>rawHumanTS := human, rawTS := raw, ts := fst r\<rparr>;
       if snd r \<noteq> None then Some (se', snd r) else status3_lines pip rest se'
     }
     else if lineType = status3HeaderKW then do {
       headerType \<leftarrow> elem_at lineFields 0;
       status3_lines pip rest (se\<lparr>headers := (headers se)(headerType \<mapsto> drop 1 lineFields)\<rparr>)
     }
     else if lineType = status3ClientListKW then do {
       c \<leftarrow> NewStatus3Client pip lineFields;
       if length (Status3Client_ParsingErrors c) > 0
       then status3_lines pip rest (se\<lparr>invalidClients := invalidClients se @ [c]\<rparr>)
       else status3_lines pip rest (se\<lparr>clients := clients se @ [c]\<rparr>)
     }
     else if lineType = status3RoutingTableKW then do {
       c \<leftarrow> NewStatus3Route pip lineFields;
       if length (Status3Route_ParsingErrors c) > 0
       then status3_lines pip rest (se\<lparr>invalidRoutes := invalidRoutes se @ [c]\<rparr>)
       else status3_lines pip rest (se\<lparr>routes := routes se @ [c]\<rparr>)
     }
     else status3_lines pip rest (se\<lparr>extra := (extra se)(lineType \<mapsto> lineFields)\<rparr>)
   }"

definition NewStatus3Event ::
  "(string \<Rightarrow> IP) \<Rightarrow> string list \<Rightarrow> (Status3Event \<times> error option) option" where
  "NewStatus3Event pip payload = status3_lines pip payload Status3Event_zero"

section \<open>Events\<close>

definition newlineSep :: string where "newlineSep = [CHR 0x0A]"
definition successPrefix :: string where "successPrefix = ''SUCCESS: ''"
definition errorPrefix :: string where "errorPrefix = ''ERROR: ''"
definition endMessage :: string where "endMessage = ''END''"

definition eventSep :: string where "eventSep = '':''"
definition fieldSep :: string where "fieldSep = '',''"
definition byteCountEventKW :: string where "byteCountEventKW = ''BYTECOUNT''"
definition byteCountCliEventKW :: string where "byteCountCliEventKW = ''BYTECOUNT_CLI''"
definition echoEventKW :: string where "echoEventKW = ''ECHO''"
definition fatalEventKW :: string where "fatalEventKW = ''FATAL''"
definition holdEventKW :: string where "holdEventKW = ''HOLD''"
definition infoEventKW :: string where "infoEventKW = ''INFO''"
definition logEventKW :: string where "logEventKW = ''LOG''"
definition needOkEventKW :: string where "needOkEventKW = ''NEED-OK''"
definition needStrEventKW :: string where "needStrEventKW = ''NEED-STR''"
definition passwordEventKW :: string where "passwordEventKW = ''PASSWORD''"
definition stateEventKW :: string where "stateEventKW = ''STATE''"
definition clientEventKW :: string where "clientEventKW = ''CLIENT''"

definition clientEnvMarker :: string where "clientEnvMarker = ''ENV''"
definition clientEnvKVSep :: string where "clientEnvKVSep = ''=''"

type_synonym ClientEventNotification = string

definition CEUnknown :: ClientEventNotification where "CEUnknown = ''UNKNOWN''"
definition CEConnect :: ClientEventNotification where "CEConnect = ''CONNECT''"
definition CEReauth :: ClientEventNotification where "CEReauth = ''REAUTH''"
definition CEEstablished :: ClientEventNotification where "CEEstablished = ''ESTABLISHED''"
definition CEDisconnect :: ClientEventNotification where "CEDisconnect = ''DISCONNECT''"
definition CEAddress :: ClientEventNotification where "CEAddress = ''ADDRESS''"

type_synonym eventEndMarker = string

definition emSingleLine :: eventEndMarker where
  "emSingleLine = []"

definition emClient :: eventEndMarker where
  "emClient = clientEventKW @ eventSep @ clientEnvMarker @ fieldSep @ endMessage"

lemmas kw_defs = newlineSep_def successPrefix_def errorPrefix_def endMessage_def eventSep_def
  fieldSep_def byteCountEventKW_def byteCountCliEventKW_def echoEventKW_def fatalEventKW_def
  holdEventKW_def infoEventKW_def logEventKW_def needOkEventKW_def needStrEventKW_def
  passwordEventKW_def stateEventKW_def clientEventKW_def clientEnvMarker_def clientEnvKVSep_def
  CEUnknown_def CEConnect_def CEReauth_def CEEstablished_def CEDisconnect_def CEAddress_def
  emSingleLine_def emClient_def

definition ErrNoMsgFieldSep :: error where
  "ErrNoMsgFieldSep =
     NewOVpnError (''no field sep '' @ [CHR 0x27] @ fieldSep @ [CHR 0x27] @ '' found'')"

type_synonym OVpnEnvironment = "string \<rightharpoonup> string"

record ClientEvent =
  rawHeader :: string
  ceType :: ClientEventNotification
  cid :: int
  kid :: int
  addr :: string
  isAddrPri :: bool
  envs :: OVpnEnvironment

text \<open>
  The variants of the \<open>Event\<close> interface. The fields of each struct are the constructor's
  arguments in the order of the struct declaration: \<open>LogEvent body bodyParts ts\<close>,
  \<open>StateEvent body bodyParts ts\<close>, \<open>EchoEvent body ts msg\<close>,
  \<open>ByteCountEvent body bytesIn bytesOut\<close>, \<open>ByteCountClientEvent body cid bytesIn bytesOut\<close>,
  \<open>SimpleEvent keyword body\<close>, \<open>UnknownEvent keyword body\<close>, \<open>MalformedEvent raw\<close>,
  \<open>InvalidEvent orig firstError\<close>. The origin of an \<open>InvalidEvent\<close> is an interface value
  and its error an \<open>error\<close>; both can be nil, hence the options. \<open>Status3EventPtr\<close> is the
  pointer \<open>*Status3Event\<close> that the status poller hands over as an \<open>Event\<close>; \<open>None\<close> is
  the nil pointer, which Go still wraps into a (non-nil) interface value that has no event
  behind it.
\<close>

datatype event =
    HoldEvent string
  | LogEvent string "string list" int
  | StateEvent string "string list" int
  | EchoEvent string int string
  | ByteCountEvent string int int
  | ByteCountClientEvent string int int int
  | ClientEvent ClientEvent
  | SimpleEvent string string
  | UnknownEvent string string
  | MalformedEvent string
  | InvalidEvent "event option" "error option"
  | Status3EventPtr "Status3Event option"

subsection \<open>Splitting into fields\<close>

definition stringsSplitNK :: "string \<Rightarrow> string \<Rightarrow> int \<Rightarrow> int \<Rightarrow> string list" where
  "stringsSplitNK s sep n k =
     (let parts = SplitN s sep n
      in if int (length parts) \<ge> k then parts
         else parts @ replicate (nat k - length parts) [])"

subsection \<open>event.go and bytecount\_event.go\<close>

definition NewHoldEvent :: "string \<Rightarrow> event" where
  "NewHoldEvent body = HoldEvent body"

definition NewLogEvent :: "string \<Rightarrow> (event \<times> error option) option" where
  "NewLogEvent body = do {
     let bodyParts = stringsSplitNK body fieldSep 3 3;
     p0 \<leftarrow> elem_at bodyParts 0;
     let r = ParseInt p0;
     Some (LogEvent body bodyParts (fst r), snd r)
   }"

definition NewStateEvent :: "string \<Rightarrow> (event \<times> error option) option" where
  "NewStateEvent body = do {
     let bodyParts = stringsSplitNK body fieldSep 9 5;
     p0 \<leftarrow> elem_at bodyParts 0;
     let r = ParseInt p0;
     Some (StateEvent body bodyParts (fst r), snd r)
   }"

definition NewEchoEvent :: "string \<Rightarrow> (event \<times> error option) option" where
  \<comment> \<open>The two slices \<open>body[sepIndex+1:]\<close> and \<open>body[:sepIndex]\<close> are in range, because
     \<open>sepIndex\<close> is an offset into \<open>body\<close>.\<close>
  "NewEchoEvent body =
     (case Index body fieldSep of
        None \<Rightarrow> Some (EchoEvent body 0 [], Some ErrNoMsgFieldSep)
      | Some sepIndex \<Rightarrow>
          (let msg = drop (sepIndex + 1) body;
               r = ParseInt (take sepIndex body)
           in Some (EchoEvent body (fst r) msg, snd r)))"

definition NewByteCountEvent :: "string \<Rightarrow> (event \<times> error option) option" where
  "NewByteCountEvent body = do {
     let bodyParts = stringsSplitNK body fieldSep 2 2;
     p0 \<leftarrow> elem_at bodyParts 0;
     let r0 = ParseInt p0;
     if snd r0 \<noteq> None then Some (ByteCountEvent body (fst r0) 0, snd r0)
     else do {
       p1 \<leftarrow> elem_at bodyParts 1;
       let r1 = ParseInt p1;
       Some (ByteCountEvent body (fst r0) (fst r1), snd r1)
     }
   }"

definition NewByteCountClientEvent :: "string \<Rightarrow> (event \<times> error option) option" where
  "NewByteCountClientEvent body = do {
     let bodyParts = stringsSplitNK body fieldSep 3 3;
     p0 \<leftarrow> elem_at bodyParts 0;
     let r0 = ParseInt p0;
     if snd r0 \<noteq> None then Some (ByteCountClientEvent body (fst r0) 0 0, snd r0)
     else do {
       p1 \<leftarrow> elem_at bodyParts 1;
       let r1 = ParseInt p1;
       if snd r1 \<noteq> None then Some (ByteCountClientEvent body (fst r0) (fst r1) 0, snd r1)
       else do {
         p2 \<leftarrow> elem_at bodyParts 2;
         let r2 = ParseInt p2;
         Some (ByteCountClientEvent body (fst r0) (fst r1) (fst r2), snd r2)
       }
     }
   }"

definition BytesIn :: "event \<Rightarrow> int option" where
  \<comment> \<open>The method of the two byte-count structs; the other variants do not have it.\<close>
  "BytesIn e =
     (case e of
        ByteCountEvent b i out \<Rightarrow> Some i
      | ByteCountClientEvent b c i out \<Rightarrow> Some i
      | _ \<Rightarrow> None)"

definition BytesOut :: "event \<Rightarrow> int option" where
  "BytesOut e =
     (case e of
        ByteCountEvent b i out \<Rightarrow> Some out
      | ByteCountClientEvent b c i out \<Rightarrow> Some out
      | _ \<Rightarrow> None)"

subsection \<open>The client event\<close>

definition ClientEvent_zero :: ClientEvent where
  "ClientEvent_zero =
     \<lparr>rawHeader = [], ceType = [], cid = 0, kid = 0, addr = [], isAddrPri = False,
      envs = Map.empty\<rparr>"

fun client_env_lines ::
  "string list \<Rightarrow> ClientEvent \<Rightarrow> (ClientEvent \<times> error option) option" where
  \<comment> \<open>The \<open>for _, line := range payload[1:]\<close> loop of \<open>NewClientEvent\<close>.\<close>
  "client_env_lines [] c = Some (c, None)"
| "client_env_lines (line # rest) c =
     (if \<not> HasPrefix line (clientEnvMarker @ fieldSep)
      then Some (c, Some (ErrorString (''no env prefix in client event line: '' @ line)))
      else do {
        let kvLine = drop (length (clientEnvMarker @ fieldSep)) line;
        let parts = stringsSplitNK kvLine clientEnvKVSep 2 2;
        key \<leftarrow> elem_at parts 0;
        val \<leftarrow> elem_at parts 1;
        client_env_lines rest (c\<lparr>envs := (envs c)(key \<mapsto> val)\<rparr>)
      })"

definition NewClientEvent :: "string list \<Rightarrow> (ClientEvent \<times> error option) option" where
  "NewClientEvent payload = do {
     header \<leftarrow> elem_at payload 0;
     let c0 = ClientEvent_zero\<lparr>rawHeader := header\<rparr>;
     let params = stringsSplitNK header fieldSep 4 4;
     p0 \<leftarrow> elem_at params 0;
     if p0 \<noteq> CEConnect \<and> p0 \<noteq> CEReauth \<and> p0 \<noteq> CEEstablished \<and> p0 \<noteq> CEDisconnect
        \<and> p0 \<noteq> CEAddress
     then Some (c0\<lparr>ceType := CEUnknown\<rparr>,
                Some (ErrorString (''unknown client event type: '' @ p0)))
     else do {
       let c1 = c0\<lparr>ceType := p0\<rparr>;
       p1 \<leftarrow> elem_at params 1;
       let r1 = ParseInt p1;
       let c2 = c1\<lparr>cid := fst r1\<rparr>;
       if snd r1 \<noteq> None then Some (c2, snd r1)
       else do {
         kr \<leftarrow> (if ceType c2 = CEConnect \<or> ceType c2 = CEReauth
                 then do { p2 \<leftarrow> elem_at params 2; Some (ParseInt p2) }
                 else Some (kid c2, None));
         let c3 = c2\<lparr>kid := fst kr\<rparr>;
         if snd kr \<noteq> None then Some (c3, snd kr)
         else if ceType c3 = CEAddress then do {
           p2 \<leftarrow> elem_at params 2;
           p3 \<leftarrow> elem_at params 3;
           let rb = ParseBool p3;
           Some (c3\<lparr>addr := p2, isAddrPri := fst rb\<rparr>, snd rb)
         }
         else client_env_lines (drop 1 payload) (c3\<lparr>envs := Map.empty\<rparr>)
       }
     }
   }"

subsection \<open>The event factory\<close>

definition NewSimpleEvent :: "string \<Rightarrow> string \<Rightarrow> event" where
  "NewSimpleEvent keyword body = SimpleEvent keyword body"

definition NewUnknownEvent :: "string \<Rightarrow> string \<Rightarrow> event" where
  "NewUnknownEvent keyword body = UnknownEvent keyword body"

definition NewMalformedEvent :: "string \<Rightarrow> event" where
  "NewMalformedEvent raw = MalformedEvent raw"

definition NewInvalidEvent :: "event option \<Rightarrow> error option \<Rightarrow> event" where
  "NewInvalidEvent evt err = InvalidEvent evt err"

fun Raw :: "event \<Rightarrow> string" where
  \<comment> \<open>The \<open>Raw\<close> methods that return a field or join two. Those of \<open>ClientEvent\<close> and
     \<open>Status3Event\<close> print maps and slices through \<open>fmt.Sprintf\<close> and have no equation.\<close>
  "Raw (HoldEvent body) = body"
| "Raw (LogEvent body bodyParts t) = body"
| "Raw (StateEvent body bodyParts t) = body"
| "Raw (EchoEvent body t msg) = body"
| "Raw (ByteCountEvent body i out) = body"
| "Raw (ByteCountClientEvent body c i out) = body"
| "Raw (SimpleEvent keyword body) = keyword @ eventSep @ body"
| "Raw (UnknownEvent keyword body) = keyword @ eventSep @ body"
| "Raw (MalformedEvent raw) = raw"
| "Raw (InvalidEvent None err) = []"
| "Raw (InvalidEvent (Some orig) err) = Raw orig"

definition splitEvent :: "string \<Rightarrow> eventEndMarker \<times> string \<times> string" where
  "splitEvent line =
     (case Index line eventSep of
        None \<Rightarrow> (emSingleLine, [], line)
      | Some splitIdx \<Rightarrow>
          (let keyword = take splitIdx line;
               body = drop (splitIdx + 1) line
           in if keyword = clientEventKW \<and>
                 (HasPrefix body CEConnect \<or> HasPrefix body CEReauth \<or>
                  HasPrefix body CEEstablished \<or> HasPrefix body CEDisconnect \<or>
                  HasPrefix body clientEnvMarker)
              then (emClient, keyword, body)
              else (emSingleLine, keyword, body)))"

definition with_error :: "event \<times> error option \<Rightarrow> event" where
  \<comment> \<open>\<open>if err != nil { return NewInvalidEvent(evt, err) }; return evt\<close>\<close>
  "with_error r = (if snd r \<noteq> None then NewInvalidEvent (Some (fst r)) (snd r) else fst r)"

definition upgradeEvent :: "string \<Rightarrow> string \<Rightarrow> event option" where
  "upgradeEvent keyword body = do {
     r \<leftarrow> (if keyword = [] then Some (NewMalformedEvent body, None)
            else if keyword = logEventKW then NewLogEvent body
            else if keyword = stateEventKW then NewStateEvent body
            else if keyword = holdEventKW then Some (NewHoldEvent body, None)
            else if keyword = echoEventKW then NewEchoEvent body
            else if keyword = byteCountEventKW then NewByteCountEvent body
            else if keyword = byteCountCliEventKW then NewByteCountClientEvent body
            else if keyword = clientEventKW
              then map_option (\<lambda>(c, err). (ClientEvent c, err)) (NewClientEvent [body])
            else if keyword = infoEventKW then Some (NewSimpleEvent keyword body, None)
            else if keyword = needOkEventKW then Some (NewSimpleEvent keyword body, None)
            else if keyword = needStrEventKW then Some (NewSimpleEvent keyword body, None)
            else if keyword = passwordEventKW then Some (NewSimpleEvent keyword body, None)
            else if keyword = fatalEventKW then Some (NewSimpleEvent keyword body, None)
            else Some (NewUnknownEvent keyword body, None));
     Some (with_error r)
   }"

definition parse_line :: "string \<Rightarrow> event option" where
  \<comment> \<open>A raw line through the factory, as the package's tests and \<open>eventScanner\<close> pair
     the two calls: \<open>_, kw, body := splitEvent(line); upgradeEvent(kw, body)\<close>.\<close>
  "parse_line line =
     (case splitEvent line of (endMarker, keyword, body) \<Rightarrow> upgradeEvent keyword body)"

definition upgradeMultilineEvent :: "string \<Rightarrow> string list \<Rightarrow> event option" where
  "upgradeMultilineEvent keyword body = do {
     r \<leftarrow> (if keyword = [] then Some (NewMalformedEvent (Join body newlineSep), None)
            else if keyword = clientEventKW
              then map_option (\<lambda>(c, err). (ClientEvent c, err)) (NewClientEvent body)
            else Some (NewUnknownEvent keyword (Join body newlineSep), None));
     Some (with_error r)
   }"

section \<open>ovmgmt.go: the client\<close>

text \<open>
  The delivery lane \<open>eventSink\<close> is the sequence of operations performed on it: a send of
  an event, or the close. Blocking on a full lane is not modelled.
\<close>

datatype sink_op = Send event | Close

subsection \<open>The event assembler\<close>

text \<open>
  The two local variables of \<open>eventScanner\<close>. The event lane \<open>rawEventCh\<close> is the list of
  lines it delivers before the demultiplexer closes it, which ends the \<open>range\<close> loop.
\<close>

record scanner =
  buf :: "string list"
  bufKW :: string

definition scanner_init :: scanner where
  "scanner_init = \<lparr>buf = [], bufKW = []\<rparr>"

definition flushMultilineBuf :: "scanner \<Rightarrow> (event list \<times> scanner) option" where
  \<comment> \<open>Sends the assembled event; the deferred function then empties both variables.\<close>
  "flushMultilineBuf st = do {
     e \<leftarrow> upgradeMultilineEvent (bufKW st) (buf st);
     Some ([e], \<lparr>buf = [], bufKW = []\<rparr>)
   }"

definition eventScanner_step :: "scanner \<Rightarrow> string \<Rightarrow> (event list \<times> scanner) option" where
  \<comment> \<open>One turn of the loop body on the line \<open>raw\<close>: the events sent, in order, and the
     variables afterwards.\<close>
  "eventScanner_step st raw =
     (case splitEvent raw of
        (endMarker, keyword, body) \<Rightarrow>
          if endMarker = emSingleLine then do {
            e \<leftarrow> upgradeEvent keyword body;
            if length (buf st) > 0 \<or> bufKW st \<noteq> [] then do {
              (out, st') \<leftarrow> flushMultilineBuf st;
              Some (e # out, st')
            }
            else Some ([e], st)
          }
          else if raw = endMarker then flushMultilineBuf st
          else if bufKW st = [] then
            Some ([], st\<lparr>bufKW := keyword, buf := buf st @ [body]\<rparr>)
          else if bufKW st \<noteq> keyword then do {
            (out, st') \<leftarrow> flushMultilineBuf st;
            e \<leftarrow> upgradeEvent keyword body;
            Some (out @ [e], st')
          }
          else Some ([], st\<lparr>buf := buf st @ [body]\<rparr>))"

fun eventScanner_loop :: "scanner \<Rightarrow> string list \<Rightarrow> (event list \<times> scanner) option" where
  "eventScanner_loop st [] = Some ([], st)"
| "eventScanner_loop st (raw # rest) = do {
     (out, st') \<leftarrow> eventScanner_step st raw;
     (out', st'') \<leftarrow> eventScanner_loop st' rest;
     Some (out @ out', st'')
   }"

definition eventScanner :: "string list \<Rightarrow> sink_op list option" where
  \<comment> \<open>Everything the goroutine does to the delivery lane for the lines of the event lane.\<close>
  "eventScanner rawEventCh = do {
     (out, st) \<leftarrow> eventScanner_loop scanner_init rawEventCh;
     Some (map Send out @ [Close])
   }"

subsection \<open>The command channel\<close>

text \<open>
  \<open>wr\<close> is the transport's write side: the chunks passed to its \<open>Write\<close>, in order, and
  \<open>wr_err\<close> the error every \<open>Write\<close> returns (\<open>None\<close> when writes succeed).
  \<open>rawReplyCh\<close> holds the lines the reply lane still delivers; after them it is closed.
\<close>

record MgmtClient =
  wr :: "string list"
  wr_err :: "error option"
  rawReplyCh :: "string list"

definition sendCommand :: "MgmtClient \<Rightarrow> string \<Rightarrow> MgmtClient \<times> error option" where
  "sendCommand c cmd = (c\<lparr>wr := wr c @ [cmd @ newlineSep]\<rparr>, wr_err c)"

definition readCommandResult :: "MgmtClient \<Rightarrow> MgmtClient \<times> string \<times> error option" where
  "readCommandResult c =
     (case rawReplyCh c of
        [] \<Rightarrow> (c, [], Some (ErrorString ''connection closed while awaiting result''))
      | reply # rest \<Rightarrow>
          if HasPrefix reply successPrefix
            then (c\<lparr>rawReplyCh := rest\<rparr>, drop (length successPrefix) reply, None)
          else if HasPrefix reply errorPrefix
            then (c\<lparr>rawReplyCh := rest\<rparr>, [],
                  Some (NewOVpnError (drop (length errorPrefix) reply)))
          else (c\<lparr>rawReplyCh := rest\<rparr>, [], Some (ErrorString ''malformed result message'')))"

fun readPayload_loop :: "string list \<Rightarrow> string list \<Rightarrow> string list \<times> string list \<times> error option" where
  \<comment> \<open>The loop of \<open>readCommandResponsePayload\<close> on the reply lane: what is left on the
     lane, the lines read, the error.\<close>
  "readPayload_loop [] acc =
     ([], acc, Some (ErrorString ''connection closed before END recieved''))"
| "readPayload_loop (line # rest) acc =
     (if line = endMessage then (rest, acc, None) else readPayload_loop rest (acc @ [line]))"

definition readCommandResponsePayload ::
  "MgmtClient \<Rightarrow> MgmtClient \<times> string list \<times> error option" where
  "readCommandResponsePayload c =
     (case readPayload_loop (rawReplyCh c) [] of
        (rest, acc, err) \<Rightarrow> (c\<lparr>rawReplyCh := rest\<rparr>, acc, err))"

definition simpleCommand :: "MgmtClient \<Rightarrow> string \<Rightarrow> MgmtClient \<times> string \<times> error option" where
  "simpleCommand c cmd =
     (case sendCommand c cmd of
        (c', err) \<Rightarrow> if err \<noteq> None then (c', [], err) else readCommandResult c')"

definition SetVerbosityLevel :: "MgmtClient \<Rightarrow> int \<Rightarrow> MgmtClient \<times> error option" where
  "SetVerbosityLevel c level =
     (if level > 0 \<and> level < 16
      then (case simpleCommand c (''verb '' @ Itoa level) of (c', res, err) \<Rightarrow> (c', err))
      else (c, Some (ErrorString (''bad verbosity level '' @ [CHR 0x27] @ Itoa level
                       @ [CHR 0x27] @ '', should be from 0 to 15''))))"

subsection \<open>The status poller\<close>

definition LatestStatus3 ::
  "(string \<Rightarrow> IP) \<Rightarrow> MgmtClient \<Rightarrow> (MgmtClient \<times> Status3Event option \<times> error option) option" where
  \<comment> \<open>The second part is the returned pointer, \<open>None\<close> being nil.\<close>
  "LatestStatus3 pip c =
     (case sendCommand c ''status 3'' of
        (c1, err) \<Rightarrow>
          if err \<noteq> None then Some (c1, None, err)
          else
            (case readCommandResponsePayload c1 of
               (c2, payload, err2) \<Rightarrow>
                 if err2 \<noteq> None then Some (c2, None, err2)
                 else do {
                   (s, err3) \<leftarrow> NewStatus3Event pip payload;
                   Some (c2, Some s, err3)
                 }))"

definition generateStatus3Event ::
  "(string \<Rightarrow> IP) \<Rightarrow> MgmtClient \<Rightarrow> (MgmtClient \<times> sink_op list) option" where
  "generateStatus3Event pip c = do {
     (c', evt, err) \<leftarrow> LatestStatus3 pip c;
     if evt \<noteq> None \<and> err = None then Some (c', [Send (Status3EventPtr evt)])
     else Some (c', [Send (NewInvalidEvent (Some (Status3EventPtr evt)) err)])
   }"

section \<open>Notions used in the statements\<close>

fun plain :: "event \<Rightarrow> bool" where
  \<comment> \<open>An event struct built by one of the typed constructors: neither the malformed nor
     the invalid wrapper, nor the poller's pointer.\<close>
  "plain (InvalidEvent orig err) = False"
| "plain (Status3EventPtr p) = False"
| "plain (MalformedEvent raw) = False"
| "plain e = True"

definition returns_plain :: "(event \<times> error option) option \<Rightarrow> bool" where
  \<comment> \<open>The call returns (does not panic), and returns a typed event struct.\<close>
  "returns_plain m = (case m of None \<Rightarrow> False | Some r \<Rightarrow> plain (fst r))"

definition is_continuation :: "string \<Rightarrow> bool" where
  \<comment> \<open>The guard of the last branch of the loop body of \<open>eventScanner\<close>: a line of
     multi-line framing that is not the end marker.\<close>
  "is_continuation raw =
     (fst (splitEvent raw) \<noteq> emSingleLine \<and> raw \<noteq> fst (splitEvent raw))"

definition scanner_inv :: "scanner \<Rightarrow> bool" where
  \<comment> \<open>What holds of the two variables whenever the loop of \<open>eventScanner\<close> is at its head:
     either nothing is buffered, or lines are buffered under the client keyword.\<close>
  "scanner_inv st =
     (if bufKW st = [] then buf st = [] else bufKW st = clientEventKW \<and> buf st \<noteq> [])"

definition row_fields :: "string \<Rightarrow> string list \<Rightarrow> string list list" where
  \<comment> \<open>The field lists that \<open>NewStatus3Event\<close> hands to a row constructor: of every line
     of the payload whose first field is \<open>kw\<close>, the fields after it.\<close>
  "row_fields kw payload =
     map (\<lambda>line. drop 1 (Split line status3FieldSep))
       (filter (\<lambda>line. elem_at (Split line status3FieldSep) 0 = Some kw) payload)"

definition line_panics :: "string \<Rightarrow> bool" where
  \<comment> \<open>A line at which \<open>NewStatus3Event\<close> indexes a field that is not there: a \<open>TIME\<close>
     line with fewer than two fields after the keyword, or a \<open>HEADER\<close> line with none.\<close>
  "line_panics line =
     (let lineType = hd (Split line status3FieldSep);
          lineFields = drop 1 (Split line status3FieldSep)
      in (lineType = status3TimeKW \<and> length lineFields < 2)
         \<or> (lineType = status3HeaderKW \<and> lineFields = []))"

definition line_stops :: "string \<Rightarrow> bool" where
  \<comment> \<open>A \<open>TIME\<close> line whose time stamp does not parse: \<open>NewStatus3Event\<close> returns there,
     with the error.\<close>
  "line_stops line =
     (let lineType = hd (Split line status3FieldSep);
          lineFields = drop 1 (Split line status3FieldSep)
      in lineType = status3TimeKW \<and> 2 \<le> length lineFields
         \<and> snd (ParseInt (lineFields ! 1)) \<noteq> None)"

fun lines_read :: "string list \<Rightarrow> string list" where
  \<comment> \<open>The lines of the payload that the loop of \<open>NewStatus3Event\<close> gets to: all of them,
     or those up to the first line at which it panics or returns.\<close>
  "lines_read [] = []"
| "lines_read (line # rest) =
     (if line_panics line \<or> line_stops line then [line] else line # lines_read rest)"

definition client_fields_ok :: "(string \<Rightarrow> IP) \<Rightarrow> string list \<Rightarrow> bool" where
  \<comment> \<open>The six fields of a client row whose parse error \<open>NewStatus3Client\<close> records all
     parse. The two virtual addresses are not among them.\<close>
  "client_fields_ok pip flds =
     (let f = pad_fields CLHeaderMax flds
      in snd (ParseIPAddrPort pip (f ! CLRealAddr)) = None
         \<and> snd (ParseInt (f ! CLBytesRecv)) = None
         \<and> snd (ParseInt (f ! CLBytesSent)) = None
         \<and> snd (ParseInt (f ! CLConnectedSinceTimestamp)) = None
         \<and> snd (ParseInt (f ! CLClientId)) = None
         \<and> snd (ParseInt (f ! CLPeerId)) = None)"

definition route_fields_ok :: "(string \<Rightarrow> IP) \<Rightarrow> string list \<Rightarrow> bool" where
  \<comment> \<open>The two fields of a route row whose parse error \<open>NewStatus3Route\<close> records parse.\<close>
  "route_fields_ok pip flds =
     (let f = pad_fields RTHeaderMax flds
      in snd (ParseIPAddrPort pip (f ! RTRealAddr)) = None
         \<and> snd (ParseInt (f ! RTLastRefTimestamp)) = None)"

subsection \<open>Sample data\<close>

text \<open>
  For concrete rows the parameter \<open>pip\<close> needs a value. \<open>ParseIP_sample\<close> reads
  dotted-decimal IPv4 text and the IPv6 text \<open>::\<close> into the 16-byte form that
  \<open>net.ParseIP\<close> returns for them, and returns nil for every other text. It agrees with
  \<open>net.ParseIP\<close> on these two forms and on text with neither a dot nor a colon, which
  \<open>net.ParseIP\<close> rejects; other IPv6 text, which \<open>net.ParseIP\<close> reads, does not
  occur in the sample rows. The general statements hold for every \<open>pip\<close>.
\<close>

definition parseOctet :: "string \<Rightarrow> nat option" where
  "parseOctet f =
     (if f = [] \<or> 3 < length f \<or> \<not> list_all isDigit f \<or> (1 < length f \<and> hd f = CHR ''0'')
         \<or> 255 < fst (ParseUint_loop 0 f)
      then None else Some (fst (ParseUint_loop 0 f)))"

definition ParseIP_sample :: "string \<Rightarrow> IP" where
  "ParseIP_sample s =
     (if s = ''::'' then [0, 0, 0, 0, 0, 0, 0, 0, 0, 0, 0, 0, 0, 0, 0, 0]
      else case map parseOctet (Split s ''.'') of
             [Some a, Some b, Some c, Some d] \<Rightarrow>
               [0, 0, 0, 0, 0, 0, 0, 0, 0, 0, 0xff, 0xff, of_nat a, of_nat b, of_nat c, of_nat d]
           | _ \<Rightarrow> [])"

text \<open>
  A client row as the daemon prints it for a client without an IPv6 address (the fields are
  tab separated), a row cut off after the common name, and the two structs that
  \<open>NewStatus3Client\<close> makes of them.
\<close>

definition sample_row_ok :: string where
  "sample_row_ok =
     Join [''CLIENT_LIST'', ''client1'', ''203.0.113.7:51820'', ''10.8.0.2'', [], ''1000'',
           ''2000'', ''Mon Mar 23 17:53:22 2020'', ''1584986002'', ''UNDEF'', ''0'', ''0'',
           ''AES-256-GCM''] status3FieldSep"

definition sample_row_short :: string where
  "sample_row_short = Join [''CLIENT_LIST'', ''client2''] status3FieldSep"

definition sample_client_valid :: Status3Client where
  "sample_client_valid =
     \<lparr>Status3Client.CommonName = ''client1'',
      Status3Client.RealAddr =
        Some \<lparr>IP = [0, 0, 0, 0, 0, 0, 0, 0, 0, 0, 0xff, 0xff, 203, 0, 113, 7], Port = 51820\<rparr>,
      VirtualAddr = [0, 0, 0, 0, 0, 0, 0, 0, 0, 0, 0xff, 0xff, 10, 8, 0, 2],
      VirtualAddr6 = [0, 0, 0, 0, 0, 0, 0, 0, 0, 0, 0, 0, 0, 0, 0, 0],
      BytesRecv = 1000, BytesSent = 2000, ConnectedSinceRaw = ''Mon Mar 23 17:53:22 2020'',
      ConnectedSinceTimestamp = 1584986002, Username = ''UNDEF'', ClientId = 0, PeerId = 0,
      DataChannelCipher = ''AES-256-GCM'', Status3Client.errs = []\<rparr>"

definition sample_client_invalid :: Status3Client where
  "sample_client_invalid =
     \<lparr>Status3Client.CommonName = ''client2'',
      Status3Client.RealAddr = None,
      VirtualAddr = [0, 0, 0, 0, 0, 0, 0, 0, 0, 0, 0xff, 0xff, 0, 0, 0, 0],
      VirtualAddr6 = [0, 0, 0, 0, 0, 0, 0, 0, 0, 0, 0, 0, 0, 0, 0, 0],
      BytesRecv = 0, BytesSent = 0, ConnectedSinceRaw = [], ConnectedSinceTimestamp = 0,
      Username = [], ClientId = 0, PeerId = 0, DataChannelCipher = [],
      Status3Client.errs =
        [AddrError ''missing port in address'' [],
         NumError ''ParseInt'' [] ErrSyntax, NumError ''ParseInt'' [] ErrSyntax,
         NumError ''ParseInt'' [] ErrSyntax, NumError ''ParseInt'' [] ErrSyntax,
         NumError ''ParseInt'' [] ErrSyntax]\<rparr>"

text \<open>A \<open>TIME\<close> line whose second field is not a number.\<close>

definition sample_time_bad :: string where
  "sample_time_bad = Join [''TIME'', ''Mon Mar 23 17:53:22 2020'', ''soon''] status3FieldSep"

section \<open>Properties\<close>

subsection \<open>Slices and field splitting\<close>

lemma elem_at_Some: "i < length xs \<Longrightarrow> elem_at xs i = Some (xs ! i)"
  by (simp add: elem_at_def)

lemma stringsSplitNK_length: "nat k \<le> length (stringsSplitNK s sep n k)"
  by (auto simp: stringsSplitNK_def Let_def)

lemma elem_at_stringsSplitNK:
  "int i < k \<Longrightarrow> elem_at (stringsSplitNK s sep n k) i = Some (stringsSplitNK s sep n k ! i)"
  using stringsSplitNK_length [of k s sep n] by (simp add: elem_at_def)

subsection \<open>The typed constructors return\<close>

lemma returns_plain_if:
  "returns_plain a \<Longrightarrow> returns_plain b \<Longrightarrow> returns_plain (if c then a else b)"
  by simp

lemma NewLogEvent_shape: "returns_plain (NewLogEvent body)"
  by (simp add: returns_plain_def NewLogEvent_def Let_def elem_at_stringsSplitNK)

lemma NewStateEvent_shape: "returns_plain (NewStateEvent body)"
  by (simp add: returns_plain_def NewStateEvent_def Let_def elem_at_stringsSplitNK)

lemma NewEchoEvent_shape: "returns_plain (NewEchoEvent body)"
  by (simp add: returns_plain_def NewEchoEvent_def Let_def split: option.split)

lemma NewByteCountEvent_shape: "returns_plain (NewByteCountEvent body)"
  by (simp add: returns_plain_def NewByteCountEvent_def Let_def elem_at_stringsSplitNK)

lemma NewByteCountClientEvent_shape: "returns_plain (NewByteCountClientEvent body)"
  by (simp add: returns_plain_def NewByteCountClientEvent_def Let_def elem_at_stringsSplitNK)

lemma client_env_lines_total: "\<exists>c' err. client_env_lines ls c = Some (c', err)"
  by (induction ls arbitrary: c) (simp_all add: Let_def elem_at_stringsSplitNK)

lemma NewClientEvent_total:
  "payload \<noteq> [] \<Longrightarrow> \<exists>c err. NewClientEvent payload = Some (c, err)"
  by (simp add: NewClientEvent_def Let_def elem_at_stringsSplitNK elem_at_Some
      client_env_lines_total)

lemma NewClientEvent_shape:
  "payload \<noteq> [] \<Longrightarrow>
   returns_plain (map_option (\<lambda>(c, err). (ClientEvent c, err)) (NewClientEvent payload))"
  using NewClientEvent_total [of payload] by (auto simp: returns_plain_def)

lemma upgradeEvent_shape:
  assumes "keyword \<noteq> []"
  shows "\<exists>e err. upgradeEvent keyword body = Some (with_error (e, err)) \<and> plain e"
proof -
  have "returns_plain
     (if keyword = [] then Some (NewMalformedEvent body, None)
      else if keyword = logEventKW then NewLogEvent body
      else if keyword = stateEventKW then NewStateEvent body
      else if keyword = holdEventKW then Some (NewHoldEvent body, None)
      else if keyword = echoEventKW then NewEchoEvent body
      else if keyword = byteCountEventKW then NewByteCountEvent body
      else if keyword = byteCountCliEventKW then NewByteCountClientEvent body
      else if keyword = clientEventKW
        then map_option (\<lambda>(c, err). (ClientEvent c, err)) (NewClientEvent [body])
      else if keyword = infoEventKW then Some (NewSimpleEvent keyword body, None)
      else if keyword = needOkEventKW then Some (NewSimpleEvent keyword body, None)
      else if keyword = needStrEventKW then Some (NewSimpleEvent keyword body, None)
      else if keyword = passwordEventKW then Some (NewSimpleEvent keyword body, None)
      else if keyword = fatalEventKW then Some (NewSimpleEvent keyword body, None)
      else Some (NewUnknownEvent keyword body, None))" (is "returns_plain ?m")
    unfolding if_not_P [OF assms]
    by (intro returns_plain_if NewLogEvent_shape NewStateEvent_shape NewEchoEvent_shape
        NewByteCountEvent_shape NewByteCountClientEvent_shape NewClientEvent_shape)
      (simp_all add: returns_plain_def NewHoldEvent_def NewSimpleEvent_def NewUnknownEvent_def)
  then obtain e err where "?m = Some (e, err)" and "plain e"
    by (auto simp: returns_plain_def split: option.splits)
  then show ?thesis
    unfolding upgradeEvent_def by (simp only: bind.bind_lunit) blast
qed

lemma upgradeEvent_malformed: "upgradeEvent [] body = Some (MalformedEvent body)"
  by (simp add: upgradeEvent_def NewMalformedEvent_def with_error_def)

lemma upgradeEvent_total: "\<exists>e. upgradeEvent keyword body = Some e"
  using upgradeEvent_shape [of keyword body] upgradeEvent_malformed [of body]
  by (cases "keyword = []") auto

lemma parse_line_total: "\<exists>e. parse_line line = Some e"
  by (simp add: parse_line_def upgradeEvent_total split: prod.split)

subsection \<open>Evaluating the model on concrete input\<close>

lemmas eval_defs = parse_line_def splitEvent_def upgradeEvent_def kw_defs stringsSplitNK_def
  SplitN_def elem_at_def ParseInt_def ParseUint_def isDigit_def digitVal_def maxUint64_def
  with_error_def NewInvalidEvent_def NewMalformedEvent_def NewHoldEvent_def NewSimpleEvent_def
  NewUnknownEvent_def Let_def

section \<open>The byte-count examples\<close>

text \<open>
  Claim C9. The factory maps \<open>BYTECOUNT:123,456\<close> to a byte-count event with
  \<open>BytesIn() = 123\<close> and \<open>BytesOut() = 456\<close>. It maps \<open>BYTECOUNT:1,2,3\<close> to an invalid
  event whose origin is a byte-count event with \<open>BytesIn() = 1\<close>: the fixed two-field split
  leaves \<open>2,3\<close> in the second slot, and the wrapped error is the integer-parse failure
  (a syntax error of \<open>ParseInt\<close>) on that text.
\<close>

theorem bytecount_examples:
  "parse_line ''BYTECOUNT:123,456'' = Some (ByteCountEvent ''123,456'' 123 456)
   \<and> BytesIn (ByteCountEvent ''123,456'' 123 456) = Some 123
   \<and> BytesOut (ByteCountEvent ''123,456'' 123 456) = Some 456
   \<and> stringsSplitNK ''1,2,3'' fieldSep 2 2 = [''1'', ''2,3'']
   \<and> ParseInt ''2,3'' = (0, Some (NumError ''ParseInt'' ''2,3'' ErrSyntax))
   \<and> parse_line ''BYTECOUNT:1,2,3'' =
       Some (InvalidEvent (Some (ByteCountEvent ''1,2,3'' 1 0))
                          (Some (NumError ''ParseInt'' ''2,3'' ErrSyntax)))
   \<and> BytesIn (ByteCountEvent ''1,2,3'' 1 0) = Some 1"
  by (simp add: eval_defs NewByteCountEvent_def BytesIn_def BytesOut_def)

section \<open>The verbosity level\<close>

lemma SetVerbosityLevel_sends:
  "0 < level \<Longrightarrow> level < 16 \<Longrightarrow>
   wr (fst (SetVerbosityLevel c level)) = wr c @ [''verb '' @ Itoa level @ newlineSep]"
  by (simp add: SetVerbosityLevel_def simpleCommand_def sendCommand_def readCommandResult_def
      split: prod.split list.split)

lemma SetVerbosityLevel_rejects:
  "level \<le> 0 \<or> 16 \<le> level \<Longrightarrow>
   fst (SetVerbosityLevel c level) = c \<and> snd (SetVerbosityLevel c level) \<noteq> None"
  by (auto simp: SetVerbosityLevel_def)

text \<open>
  Claim C4. \<open>SetVerbosityLevel\<close> is to accept every level from 0 to 15 and to reject every
  other level before anything is written. The guard of the code is \<open>level > 0 && level < 16\<close>:
  the levels 1 to 15 are sent (\<open>SetVerbosityLevel_sends\<close>) and the levels outside 0 to 15 are
  rejected unsent (\<open>SetVerbosityLevel_rejects\<close>), but level 0, which the doc comment and the
  error text itself count as valid, is rejected as well: nothing is written and the caller
  gets the error that says the level should be from 0 to 15.
\<close>

theorem SetVerbosityLevel_rejects_zero:
  "SetVerbosityLevel c 0 =
     (c, Some (ErrorString (''bad verbosity level '' @ [CHR 0x27] @ ''0'' @ [CHR 0x27]
                              @ '', should be from 0 to 15'')))"
  by (simp add: SetVerbosityLevel_def Itoa_def)

section \<open>Parsing never panics, except in the status snapshot\<close>

text \<open>
  Claim C1. Every input handed to the event-parsing path yields exactly one event and never
  a panic. For a single raw line this holds: \<open>parse_line_total\<close> above. It fails for the
  payload of a \<open>status 3\<close> reply: \<open>NewStatus3Event\<close> reads \<open>lineFields[1]\<close> of a \<open>TIME\<close>
  line and \<open>lineFields[0]\<close> of a \<open>HEADER\<close> line without checking how many fields the line
  has, so a truncated line panics, and with it the poller that parses the reply.
\<close>

theorem NewStatus3Event_panics:
  "NewStatus3Event pip [''TIME''] = None
   \<and> NewStatus3Event pip [''HEADER''] = None
   \<and> generateStatus3Event pip \<lparr>wr = [], wr_err = None, rawReplyCh = [''TIME'', ''END'']\<rparr> = None"
  by (simp add: NewStatus3Event_def Split_def SplitN_def status3_defs elem_at_def
      generateStatus3Event_def LatestStatus3_def sendCommand_def readCommandResponsePayload_def
      endMessage_def)

section \<open>Framing of client lines\<close>


section \<open>Malformed lines\<close>

lemma Index_None_iff: "Index s [c] = None \<longleftrightarrow> c \<notin> set s"
  by (induction s) auto

lemma Index_zero: "Index s [c] = Some 0 \<longleftrightarrow> (\<exists>r. s = c # r)"
  by (cases s) auto

lemma Index_take_Nil: "Index s [c] = Some i \<Longrightarrow> take i s = [] \<Longrightarrow> i = 0"
  by (cases s) (auto split: if_splits)

lemma upgradeEvent_Malformed_iff:
  "upgradeEvent keyword body = Some (MalformedEvent r) \<longleftrightarrow> keyword = [] \<and> r = body"
proof (cases "keyword = []")
  case True
  then show ?thesis by (auto simp: upgradeEvent_malformed)
next
  case False
  from upgradeEvent_shape [OF False, of body] obtain e err where
    "upgradeEvent keyword body = Some (with_error (e, err))" "plain e" by blast
  with False show ?thesis
    by (cases e) (auto simp: with_error_def NewInvalidEvent_def)
qed

text \<open>
  Claim C8, as amended. For every line that lacks the separator \<open>:\<close> the factory
  produces a malformed event whose \<open>Raw()\<close> is exactly the line. A line that begins with
  the separator has the empty keyword and yields a malformed event too, but one that holds
  the line without its first byte. No other line yields a malformed event.
\<close>

theorem parse_line_malformed:
  "(CHR '':'' \<notin> set line \<longrightarrow>
      parse_line line = Some (MalformedEvent line) \<and> Raw (MalformedEvent line) = line)
   \<and> (parse_line line = Some (MalformedEvent r) \<longleftrightarrow>
        (CHR '':'' \<notin> set line \<and> r = line) \<or> line = CHR '':'' # r)"
proof (cases "Index line eventSep")
  case None
  then have "CHR '':'' \<notin> set line" by (simp add: eventSep_def Index_None_iff)
  moreover from None have "parse_line line = upgradeEvent [] line"
    by (simp add: parse_line_def splitEvent_def)
  ultimately show ?thesis by (auto simp: upgradeEvent_malformed)
next
  case (Some i)
  then have in_line: "CHR '':'' \<in> set line"
    using Index_None_iff [of line "CHR '':''"] by (simp add: eventSep_def)
  from Some have pl: "parse_line line = upgradeEvent (take i line) (drop (i + 1) line)"
    by (simp add: parse_line_def splitEvent_def Let_def)
  show ?thesis
  proof (cases "i = 0")
    case True
    with Some obtain rest where "line = CHR '':'' # rest"
      by (auto simp: eventSep_def Index_zero)
    with pl True in_line show ?thesis by (auto simp: upgradeEvent_Malformed_iff)
  next
    case False
    with Some have "take i line \<noteq> []" using Index_take_Nil [of line "CHR '':''" i]
      by (auto simp: eventSep_def)
    moreover from Some False have "\<not> (\<exists>r. line = CHR '':'' # r)"
      using Index_zero [of line "CHR '':''"] by (auto simp: eventSep_def)
    ultimately show ?thesis using pl in_line by (auto simp: upgradeEvent_Malformed_iff)
  qed
qed

text \<open>The first test case of \<open>TestMalformedEvent\<close> that is not empty.\<close>

theorem parse_line_malformed_witness:
  "CHR '':'' \<notin> set ''HTTP/1.1 200 OK''
   \<and> parse_line ''HTTP/1.1 200 OK'' = Some (MalformedEvent ''HTTP/1.1 200 OK'')
   \<and> Raw (MalformedEvent ''HTTP/1.1 200 OK'') = ''HTTP/1.1 200 OK''"
  using parse_line_malformed [of "''HTTP/1.1 200 OK''" "''HTTP/1.1 200 OK''"] by simp

text \<open>
  The claim as stated fails: the line \<open>:abc\<close> yields a malformed event whose raw text
  is \<open>abc\<close>, not the line.
\<close>

theorem malformed_drops_separator:
  "parse_line '':abc'' = Some (MalformedEvent ''abc'')
   \<and> Raw (MalformedEvent ''abc'') = ''abc''
   \<and> ''abc'' \<noteq> '':abc''"
  by (simp add: eval_defs)

section \<open>The event assembler\<close>

subsection \<open>The loop keeps its invariant and never panics\<close>

lemma splitEvent_marker:
  "fst (splitEvent raw) = emSingleLine \<or>
   (\<exists>body. splitEvent raw = (emClient, clientEventKW, body))"
  by (auto simp: splitEvent_def Let_def split: option.split)

lemma upgradeMultilineEvent_total:
  assumes "keyword = clientEventKW \<Longrightarrow> payload \<noteq> []"
  shows "\<exists>e. upgradeMultilineEvent keyword payload = Some e"
proof (cases "keyword = clientEventKW")
  case True
  with assms obtain c err where "NewClientEvent payload = Some (c, err)"
    using NewClientEvent_total [of payload] by blast
  with True show ?thesis by (simp add: upgradeMultilineEvent_def clientEventKW_def)
next
  case False
  then show ?thesis by (simp add: upgradeMultilineEvent_def)
qed

lemma flushMultilineBuf_inv:
  assumes "scanner_inv st"
  shows "\<exists>e. flushMultilineBuf st = Some ([e], scanner_init)"
proof -
  from assms have "bufKW st = clientEventKW \<Longrightarrow> buf st \<noteq> []"
    by (auto simp: scanner_inv_def clientEventKW_def split: if_splits)
  from upgradeMultilineEvent_total [OF this] obtain e where
    "upgradeMultilineEvent (bufKW st) (buf st) = Some e" by blast
  then show ?thesis by (simp add: flushMultilineBuf_def scanner_init_def)
qed

lemma scanner_init_inv: "scanner_inv scanner_init"
  by (simp add: scanner_inv_def scanner_init_def)

lemma step_continuation:
  assumes "scanner_inv st" "is_continuation raw"
  shows "\<exists>st'. eventScanner_step st raw = Some ([], st') \<and> scanner_inv st'
           \<and> bufKW st' = clientEventKW \<and> buf st' = buf st @ [snd (snd (splitEvent raw))]"
proof -
  from assms(2) splitEvent_marker [of raw] obtain body where
    sp: "splitEvent raw = (emClient, clientEventKW, body)" and ne: "raw \<noteq> emClient"
    by (auto simp: is_continuation_def)
  have em: "emClient \<noteq> emSingleLine" by (simp add: kw_defs)
  show ?thesis
  proof (cases "bufKW st = []")
    case True
    with sp ne em show ?thesis
      by (simp add: eventScanner_step_def scanner_inv_def clientEventKW_def)
  next
    case False
    with assms(1) have "bufKW st = clientEventKW" "buf st \<noteq> []"
      by (auto simp: scanner_inv_def split: if_splits)
    with sp ne em False show ?thesis
      by (simp add: eventScanner_step_def scanner_inv_def clientEventKW_def)
  qed
qed

lemma step_inv:
  assumes "scanner_inv st"
  shows "\<exists>out st'. eventScanner_step st raw = Some (out, st') \<and> scanner_inv st'"
proof -
  obtain endMarker keyword body where sp: "splitEvent raw = (endMarker, keyword, body)"
    by (cases "splitEvent raw") auto
  from flushMultilineBuf_inv [OF assms] obtain fe where
    fl: "flushMultilineBuf st = Some ([fe], scanner_init)" by blast
  obtain e where up: "upgradeEvent keyword body = Some e"
    using upgradeEvent_total by blast
  show ?thesis
  proof (cases "endMarker = emSingleLine")
    case True
    with sp fl up assms show ?thesis
      by (auto simp: eventScanner_step_def scanner_init_inv)
  next
    case False
    show ?thesis
    proof (cases "raw = endMarker")
      case True
      with False sp fl show ?thesis
        by (auto simp: eventScanner_step_def scanner_init_inv)
    next
      case ne: False
      with False sp have "is_continuation raw" by (simp add: is_continuation_def)
      from step_continuation [OF assms this] show ?thesis by blast
    qed
  qed
qed

lemma loop_inv:
  "scanner_inv st \<Longrightarrow>
   \<exists>out st'. eventScanner_loop st ls = Some (out, st') \<and> scanner_inv st'"
proof (induction ls arbitrary: st)
  case Nil
  then show ?case by simp
next
  case (Cons raw rest)
  from step_inv [OF Cons.prems, of raw] obtain out st' where
    s: "eventScanner_step st raw = Some (out, st')" and i: "scanner_inv st'" by blast
  from Cons.IH [OF i] obtain out' st'' where
    "eventScanner_loop st' rest = Some (out', st'')" "scanner_inv st''" by blast
  with s show ?case by simp
qed

lemma loop_append:
  "eventScanner_loop st (xs @ ys) =
     do { (out, st') \<leftarrow> eventScanner_loop st xs;
          (out', st'') \<leftarrow> eventScanner_loop st' ys;
          Some (out @ out', st'') }"
proof (induction xs arbitrary: st)
  case Nil
  then show ?case by (simp split: prod.split)
next
  case (Cons x xs)
  show ?case
  proof (cases "eventScanner_step st x")
    case None
    then show ?thesis by simp
  next
    case (Some r)
    obtain out st' where r: "r = (out, st')" by (cases r)
    show ?thesis
    proof (cases "eventScanner_loop st' xs")
      case None
      with Some r show ?thesis by (simp add: Cons.IH)
    next
      case (Some r2)
      obtain o2 s2 where "r2 = (o2, s2)" by (cases r2)
      with Some \<open>eventScanner_step st x = Some r\<close> r show ?thesis
        by (cases "eventScanner_loop s2 ys") (auto simp: Cons.IH)
    qed
  qed
qed

lemma loop_block:
  "scanner_inv st \<Longrightarrow> list_all is_continuation block \<Longrightarrow>
   \<exists>st'. eventScanner_loop st block = Some ([], st') \<and> scanner_inv st'"
proof (induction block arbitrary: st)
  case Nil
  then show ?case by simp
next
  case (Cons raw rest)
  then have "is_continuation raw" "list_all is_continuation rest" by simp_all
  from step_continuation [OF Cons.prems(1) this(1)] obtain st' where
    s: "eventScanner_step st raw = Some ([], st')" and i: "scanner_inv st'" by blast
  from Cons.IH [OF i \<open>list_all is_continuation rest\<close>] obtain st'' where
    "eventScanner_loop st' rest = Some ([], st'')" "scanner_inv st''" by blast
  with s show ?case by simp
qed

text \<open>
  Claim C2, as amended. When the event lane closes, \<open>eventScanner\<close> leaves its loop and
  closes the delivery lane; nothing is flushed. Lines of an unterminated multi-line block
  at the end of the lane add no event: the lane receives exactly what it receives without
  them, namely the events completed before, followed by the close.
\<close>

theorem eventScanner_drops_open_buffer:
  assumes "list_all is_continuation block"
  shows "eventScanner (ls @ block) = eventScanner ls
         \<and> (\<exists>out. eventScanner ls = Some (map Send out @ [Close]))"
proof -
  from loop_inv [OF scanner_init_inv, of ls] obtain out st where
    l: "eventScanner_loop scanner_init ls = Some (out, st)" and i: "scanner_inv st" by blast
  from loop_block [OF i assms] obtain st' where
    b: "eventScanner_loop st block = Some ([], st')" by blast
  from l b have "eventScanner_loop scanner_init (ls @ block) = Some (out, st')"
    by (simp add: loop_append)
  with l show ?thesis by (auto simp: eventScanner_def)
qed

subsection \<open>Concrete lines\<close>

lemmas CE_defs = CEConnect_def CEReauth_def CEEstablished_def CEDisconnect_def CEAddress_def
  CEUnknown_def

lemmas ParseInt_eval = ParseInt_def ParseUint_def isDigit_def digitVal_def maxUint64_def

lemma split_connect: "stringsSplitNK ''CONNECT,7,2'' fieldSep 4 4 = [''CONNECT'', ''7'', ''2'', []]"
  by (simp add: stringsSplitNK_def SplitN_def fieldSep_def numeral_3_eq_3)

lemma split_env: "stringsSplitNK ''ENV,foo=bar'' fieldSep 4 4 = [''ENV'', ''foo=bar'', [], []]"
  by (simp add: stringsSplitNK_def SplitN_def fieldSep_def numeral_3_eq_3)

lemma ParseInt_7_2: "ParseInt ''7'' = (7, None)" "ParseInt ''2'' = (2, None)"
  by (simp_all add: ParseInt_eval)

lemma NewClientEvent_connect:
  "NewClientEvent [''CONNECT,7,2''] =
     Some (\<lparr>rawHeader = ''CONNECT,7,2'', ceType = ''CONNECT'', cid = 7, kid = 2, addr = [],
            isAddrPri = False, envs = Map.empty\<rparr>, None)"
  by (simp add: NewClientEvent_def split_connect ParseInt_7_2 elem_at_def ClientEvent_zero_def
      CE_defs Let_def)

lemma NewClientEvent_env:
  "NewClientEvent [''ENV,foo=bar''] =
     Some (\<lparr>rawHeader = ''ENV,foo=bar'', ceType = ''UNKNOWN'', cid = 0, kid = 0, addr = [],
            isAddrPri = False, envs = Map.empty\<rparr>,
           Some (ErrorString ''unknown client event type: ENV''))"
  by (simp add: NewClientEvent_def split_env elem_at_def ClientEvent_zero_def CE_defs Let_def)

lemma splitEvent_examples:
  "splitEvent ''CLIENT:CONNECT,7,2'' = (emClient, ''CLIENT'', ''CONNECT,7,2'')"
  "splitEvent ''CLIENT:ENV,foo=bar'' = (emClient, ''CLIENT'', ''ENV,foo=bar'')"
  "splitEvent ''HOLD:waiting'' = (emSingleLine, ''HOLD'', ''waiting'')"
  by (simp_all add: splitEvent_def kw_defs)

lemma upgradeEvent_hold: "upgradeEvent ''HOLD'' ''waiting'' = Some (HoldEvent ''waiting'')"
  by (simp add: upgradeEvent_def kw_defs NewHoldEvent_def with_error_def)

lemma upgradeMultilineEvent_connect:
  "upgradeMultilineEvent ''CLIENT'' [''CONNECT,7,2''] =
     Some (ClientEvent \<lparr>rawHeader = ''CONNECT,7,2'', ceType = ''CONNECT'', cid = 7, kid = 2,
             addr = [], isAddrPri = False, envs = Map.empty\<rparr>)"
  by (simp add: upgradeMultilineEvent_def NewClientEvent_connect clientEventKW_def with_error_def)

lemma upgradeEvent_env:
  "upgradeEvent ''CLIENT'' ''ENV,foo=bar'' =
     Some (InvalidEvent
             (Some (ClientEvent \<lparr>rawHeader = ''ENV,foo=bar'', ceType = ''UNKNOWN'', cid = 0,
                      kid = 0, addr = [], isAddrPri = False, envs = Map.empty\<rparr>))
             (Some (ErrorString ''unknown client event type: ENV'')))"
  by (simp add: upgradeEvent_def kw_defs NewClientEvent_env with_error_def NewInvalidEvent_def)

lemmas marker_defs = emSingleLine_def emClient_def clientEventKW_def eventSep_def
  clientEnvMarker_def fieldSep_def endMessage_def

lemmas scan_defs = eventScanner_def eventScanner_step_def flushMultilineBuf_def
  scanner_init_def

theorem eventScanner_drops_open_buffer_witness:
  "list_all is_continuation [''CLIENT:CONNECT,7,2'', ''CLIENT:ENV,foo=bar'']
   \<and> eventScanner ([''HOLD:waiting''] @ [''CLIENT:CONNECT,7,2'', ''CLIENT:ENV,foo=bar''])
       = eventScanner [''HOLD:waiting'']
   \<and> eventScanner [''HOLD:waiting''] = Some (map Send [HoldEvent ''waiting''] @ [Close])"
proof -
  have h: "list_all is_continuation [''CLIENT:CONNECT,7,2'', ''CLIENT:ENV,foo=bar'']"
    by (simp add: is_continuation_def splitEvent_examples marker_defs)
  have e: "eventScanner [''HOLD:waiting''] = Some (map Send [HoldEvent ''waiting''] @ [Close])"
    by (simp add: scan_defs splitEvent_examples upgradeEvent_hold)
  show ?thesis
    using h e eventScanner_drops_open_buffer [OF h, of "[''HOLD:waiting'']"] by simp
qed

text \<open>
  The claim as stated fails: a connect block that is cut off before its end marker is not
  delivered; the lane is closed and nothing else.
\<close>

theorem eventScanner_unterminated_block:
  "eventScanner [''CLIENT:CONNECT,7,2'', ''CLIENT:ENV,foo=bar''] = Some [Close]"
  by (simp add: scan_defs splitEvent_examples marker_defs)

subsection \<open>A single-line event while a buffer is open\<close>

lemma single_line_with_open_buffer:
  assumes "fst (splitEvent raw) = emSingleLine" "buf st \<noteq> [] \<or> bufKW st \<noteq> []"
  shows "eventScanner_step st raw =
           do { e \<leftarrow> parse_line raw;
                f \<leftarrow> upgradeMultilineEvent (bufKW st) (buf st);
                Some ([e, f], scanner_init) }"
  using assms
  by (cases "splitEvent raw")
     (auto simp: eventScanner_step_def parse_line_def flushMultilineBuf_def scanner_init_def
           split: Option.bind_split)

text \<open>
  Claim C5. When a single-line event arrives while a buffer is open, the buffered event is
  to be delivered first and the single-line event after it. The code sends the single-line
  event before it looks at the buffer (\<open>single_line_with_open_buffer\<close>), so the two
  arrive in the opposite order; the buffer is empty afterwards. On the lines
  \<open>CLIENT:CONNECT,7,2\<close>, \<open>HOLD:waiting\<close> the hold event overtakes the client event.
\<close>

theorem single_line_overtakes_open_buffer:
  "eventScanner [''CLIENT:CONNECT,7,2'', ''HOLD:waiting''] =
     Some [Send (HoldEvent ''waiting''),
           Send (ClientEvent \<lparr>rawHeader = ''CONNECT,7,2'', ceType = ''CONNECT'', cid = 7,
                   kid = 2, addr = [], isAddrPri = False, envs = Map.empty\<rparr>),
           Close]"
  by (simp add: scan_defs splitEvent_examples upgradeEvent_hold upgradeMultilineEvent_connect
      marker_defs)

subsection \<open>A continuation line under another keyword\<close>

text \<open>
  Only client lines have multi-line framing: the buffer keyword is either empty or the
  client keyword, and every continuation line carries the client keyword. Whatever lines
  the event lane delivers, the loop therefore never meets a continuation line while a
  buffer is open under another keyword, and the branch of the loop body for a differing
  keyword is not reached.
\<close>

lemma mismatch_unreachable:
  assumes "scanner_inv st" "is_continuation raw"
  shows "bufKW st = [] \<or> bufKW st = fst (snd (splitEvent raw))"
  using assms splitEvent_marker [of raw]
  by (auto simp: scanner_inv_def is_continuation_def split: if_splits)

lemma mismatch_never_arises:
  assumes "eventScanner_loop scanner_init ls = Some (out, st)" "is_continuation raw"
  shows "bufKW st = [] \<or> bufKW st = fst (snd (splitEvent raw))"
proof -
  from loop_inv [OF scanner_init_inv, of ls] assms(1) have "scanner_inv st" by auto
  from mismatch_unreachable [OF this assms(2)] show ?thesis .
qed

section \<open>The origin of an invalid event\<close>

lemma with_error_Invalid:
  assumes "plain e" "with_error (e, err) = InvalidEvent orig er"
  shows "orig = Some e \<and> er = err \<and> err \<noteq> None"
  using assms by (cases e) (auto simp: with_error_def NewInvalidEvent_def split: if_splits)

lemma upgradeEvent_Invalid:
  assumes "upgradeEvent keyword body = Some (InvalidEvent orig err)"
  shows "(\<exists>e. orig = Some e \<and> plain e) \<and> err \<noteq> None"
proof (cases "keyword = []")
  case True
  with assms show ?thesis by (simp add: upgradeEvent_malformed)
next
  case False
  from upgradeEvent_shape [OF False, of body] obtain e er where
    "upgradeEvent keyword body = Some (with_error (e, er))" "plain e" by blast
  with assms with_error_Invalid [of e er orig err] show ?thesis by auto
qed

lemma upgradeMultilineEvent_Invalid:
  assumes "upgradeMultilineEvent keyword payload = Some (InvalidEvent orig err)"
  shows "(\<exists>e. orig = Some e \<and> plain e) \<and> err \<noteq> None"
proof (cases "keyword = clientEventKW")
  case True
  with assms obtain c er where "with_error (ClientEvent c, er) = InvalidEvent orig err"
    by (auto simp: upgradeMultilineEvent_def clientEventKW_def split: Option.bind_splits)
  from with_error_Invalid [OF _ this] show ?thesis by simp
next
  case False
  with assms show ?thesis
    by (auto simp: upgradeMultilineEvent_def with_error_def NewMalformedEvent_def
        NewUnknownEvent_def split: if_splits)
qed

lemma readPayload_loop_err:
  "readPayload_loop lane acc = (rest, ls, err) \<Longrightarrow> (err = None) = (endMessage \<in> set lane)"
  by (induction lane arbitrary: acc) (auto split: if_splits)

lemma LatestStatus3_nil:
  assumes "LatestStatus3 pip c = Some (c', evt, err)"
  shows "(evt = None) = (wr_err c \<noteq> None \<or> endMessage \<notin> set (rawReplyCh c))
         \<and> (evt = None \<longrightarrow> err \<noteq> None)"
proof (cases "wr_err c = None")
  case False
  with assms show ?thesis by (auto simp: LatestStatus3_def sendCommand_def)
next
  case True
  obtain rest ls e2 where rp: "readPayload_loop (rawReplyCh c) [] = (rest, ls, e2)"
    by (cases "readPayload_loop (rawReplyCh c) []") auto
  from readPayload_loop_err [OF rp] have e2: "(e2 = None) = (endMessage \<in> set (rawReplyCh c))" .
  from assms True rp e2 show ?thesis
    by (auto simp: LatestStatus3_def sendCommand_def readCommandResponsePayload_def
        split: if_splits Option.bind_splits)
qed

text \<open>
  Claim C3, as amended. Every invalid event that the event factory builds (from a single
  line or from a multi-line block) carries an origin event, one of the typed event structs,
  and a non-nil error. The invalid event that the status poller builds carries a non-nil
  error too, but its origin is the \<open>*Status3Event\<close> pointer returned by
  \<open>LatestStatus3\<close>, and that pointer is nil exactly when the command could not be written
  or the reply lane closed before the end of the payload.
\<close>

theorem invalid_event_origin:
  "(upgradeEvent keyword body = Some (InvalidEvent orig1 err1) \<longrightarrow>
      (\<exists>e. orig1 = Some e \<and> plain e) \<and> err1 \<noteq> None)
   \<and> (upgradeMultilineEvent keyword' payload = Some (InvalidEvent orig2 err2) \<longrightarrow>
      (\<exists>e. orig2 = Some e \<and> plain e) \<and> err2 \<noteq> None)
   \<and> (generateStatus3Event pip c = Some (c', [Send (InvalidEvent orig3 err3)]) \<longrightarrow>
      err3 \<noteq> None
      \<and> (\<exists>p. orig3 = Some (Status3EventPtr p)
             \<and> (p = None) = (wr_err c \<noteq> None \<or> endMessage \<notin> set (rawReplyCh c))))"
proof (intro conjI impI)
  assume "upgradeEvent keyword body = Some (InvalidEvent orig1 err1)"
  from upgradeEvent_Invalid [OF this]
  show "\<exists>e. orig1 = Some e \<and> plain e" and "err1 \<noteq> None" by simp_all
next
  assume "upgradeMultilineEvent keyword' payload = Some (InvalidEvent orig2 err2)"
  from upgradeMultilineEvent_Invalid [OF this]
  show "\<exists>e. orig2 = Some e \<and> plain e" and "err2 \<noteq> None" by simp_all
next
  assume g: "generateStatus3Event pip c = Some (c', [Send (InvalidEvent orig3 err3)])"
  then obtain evt where l: "LatestStatus3 pip c = Some (c', evt, err3)"
    and o: "orig3 = Some (Status3EventPtr evt)" and n: "evt = None \<or> err3 \<noteq> None"
    by (auto simp: generateStatus3Event_def NewInvalidEvent_def
        split: Option.bind_splits if_splits)
  from LatestStatus3_nil [OF l] n show "err3 \<noteq> None" by auto
  from LatestStatus3_nil [OF l] o
  show "\<exists>p. orig3 = Some (Status3EventPtr p)
           \<and> (p = None) = (wr_err c \<noteq> None \<or> endMessage \<notin> set (rawReplyCh c))"
    by simp
qed

lemma generateStatus3Event_closed:
  "generateStatus3Event pip \<lparr>wr = [], wr_err = None, rawReplyCh = []\<rparr> =
     Some (\<lparr>wr = [''status 3'' @ newlineSep], wr_err = None, rawReplyCh = []\<rparr>,
           [Send (InvalidEvent (Some (Status3EventPtr None))
                    (Some (ErrorString ''connection closed before END recieved'')))])"
  by (simp add: generateStatus3Event_def LatestStatus3_def sendCommand_def
      readCommandResponsePayload_def NewInvalidEvent_def)

lemma generateStatus3Event_broken:
  "generateStatus3Event pip \<lparr>wr = [], wr_err = Some (ErrorString ''broken pipe''),
       rawReplyCh = [''END'']\<rparr> =
     Some (\<lparr>wr = [''status 3'' @ newlineSep], wr_err = Some (ErrorString ''broken pipe''),
            rawReplyCh = [''END'']\<rparr>,
           [Send (InvalidEvent (Some (Status3EventPtr None))
                    (Some (ErrorString ''broken pipe'')))])"
  by (simp add: generateStatus3Event_def LatestStatus3_def sendCommand_def
      readCommandResponsePayload_def NewInvalidEvent_def)

lemma upgradeMultilineEvent_env:
  "upgradeMultilineEvent ''CLIENT'' [''ENV,foo=bar''] =
     Some (InvalidEvent
             (Some (ClientEvent \<lparr>rawHeader = ''ENV,foo=bar'', ceType = ''UNKNOWN'', cid = 0,
                      kid = 0, addr = [], isAddrPri = False, envs = Map.empty\<rparr>))
             (Some (ErrorString ''unknown client event type: ENV'')))"
  by (simp add: upgradeMultilineEvent_def clientEventKW_def NewClientEvent_env with_error_def
      NewInvalidEvent_def)

theorem invalid_event_origin_witness:
  "upgradeEvent ''CLIENT'' ''ENV,foo=bar'' =
     Some (InvalidEvent
             (Some (ClientEvent \<lparr>rawHeader = ''ENV,foo=bar'', ceType = ''UNKNOWN'', cid = 0,
                      kid = 0, addr = [], isAddrPri = False, envs = Map.empty\<rparr>))
             (Some (ErrorString ''unknown client event type: ENV'')))
   \<and> upgradeMultilineEvent ''CLIENT'' [''ENV,foo=bar''] =
     Some (InvalidEvent
             (Some (ClientEvent \<lparr>rawHeader = ''ENV,foo=bar'', ceType = ''UNKNOWN'', cid = 0,
                      kid = 0, addr = [], isAddrPri = False, envs = Map.empty\<rparr>))
             (Some (ErrorString ''unknown client event type: ENV'')))
   \<and> plain (ClientEvent \<lparr>rawHeader = ''ENV,foo=bar'', ceType = ''UNKNOWN'', cid = 0,
                      kid = 0, addr = [], isAddrPri = False, envs = Map.empty\<rparr>)
   \<and> generateStatus3Event ParseIP_sample
         \<lparr>wr = [], wr_err = Some (ErrorString ''broken pipe''), rawReplyCh = [''END'']\<rparr> =
       Some (\<lparr>wr = [''status 3'' @ newlineSep], wr_err = Some (ErrorString ''broken pipe''),
              rawReplyCh = [''END'']\<rparr>,
             [Send (InvalidEvent (Some (Status3EventPtr None))
                      (Some (ErrorString ''broken pipe'')))])
   \<and> wr_err \<lparr>wr = [], wr_err = Some (ErrorString ''broken pipe''), rawReplyCh = [''END'']\<rparr>
       \<noteq> None"
  using upgradeEvent_env upgradeMultilineEvent_env generateStatus3Event_broken [of ParseIP_sample]
    invalid_event_origin [of "''CLIENT''" "''ENV,foo=bar''"
      "Some (ClientEvent \<lparr>rawHeader = ''ENV,foo=bar'', ceType = ''UNKNOWN'', cid = 0,
                      kid = 0, addr = [], isAddrPri = False, envs = Map.empty\<rparr>)"
      "Some (ErrorString ''unknown client event type: ENV'')"
      "''CLIENT''" "[''ENV,foo=bar'']"
      "Some (ClientEvent \<lparr>rawHeader = ''ENV,foo=bar'', ceType = ''UNKNOWN'', cid = 0,
                      kid = 0, addr = [], isAddrPri = False, envs = Map.empty\<rparr>)"
      "Some (ErrorString ''unknown client event type: ENV'')"
      ParseIP_sample
      "\<lparr>wr = [], wr_err = Some (ErrorString ''broken pipe''), rawReplyCh = [''END'']\<rparr>"
      "\<lparr>wr = [''status 3'' @ newlineSep], wr_err = Some (ErrorString ''broken pipe''),
              rawReplyCh = [''END'']\<rparr>"
      "Some (Status3EventPtr None)" "Some (ErrorString ''broken pipe'')"]
  by simp

text \<open>
  The claim as stated fails on the poller path: when the reply lane is closed, the poller
  sends an invalid event whose origin is the nil pointer.
\<close>

theorem poller_invalid_event_nil_origin:
  "generateStatus3Event ParseIP_sample \<lparr>wr = [], wr_err = None, rawReplyCh = []\<rparr> =
     Some (\<lparr>wr = [''status 3'' @ newlineSep], wr_err = None, rawReplyCh = []\<rparr>,
           [Send (InvalidEvent (Some (Status3EventPtr None))
                    (Some (ErrorString ''connection closed before END recieved'')))])"
  by (rule generateStatus3Event_closed)

section \<open>Rows of the status snapshot are partitioned\<close>

lemma genSplit_nonempty: "genSplit n s sep \<noteq> []"
  by (cases n) (auto split: option.split)

lemma Split_nonempty: "Split s sep \<noteq> []"
  by (simp add: Split_def SplitN_def genSplit_nonempty)

lemma elem_at_Split: "elem_at (Split s sep) 0 = Some (hd (Split s sep))"
  using Split_nonempty [of s sep] by (cases "Split s sep") (auto simp: elem_at_def)

lemma pad_fields_length: "m \<le> length (pad_fields m flds)"
  by (simp add: pad_fields_def)

lemma elem_at_pad: "i < m \<Longrightarrow> elem_at (pad_fields m flds) i = Some (pad_fields m flds ! i)"
  using pad_fields_length [of m flds] by (simp add: elem_at_def)

lemma NewStatus3Client_total: "\<exists>c. NewStatus3Client pip flds = Some c"
  by (simp add: NewStatus3Client_def Let_def elem_at_pad CL_defs)

lemma NewStatus3Route_total: "\<exists>c. NewStatus3Route pip flds = Some c"
  by (simp add: NewStatus3Route_def Let_def elem_at_pad RT_defs)

lemma kw_distinct:
  "status3ClientListKW \<noteq> status3TitleKW" "status3ClientListKW \<noteq> status3TimeKW"
  "status3ClientListKW \<noteq> status3HeaderKW" "status3ClientListKW \<noteq> status3RoutingTableKW"
  "status3RoutingTableKW \<noteq> status3TitleKW" "status3RoutingTableKW \<noteq> status3TimeKW"
  "status3RoutingTableKW \<noteq> status3HeaderKW" "status3RoutingTableKW \<noteq> status3ClientListKW"
  "status3TitleKW \<noteq> status3ClientListKW" "status3TimeKW \<noteq> status3ClientListKW"
  "status3HeaderKW \<noteq> status3ClientListKW" "status3TitleKW \<noteq> status3RoutingTableKW"
  "status3TimeKW \<noteq> status3RoutingTableKW" "status3HeaderKW \<noteq> status3RoutingTableKW"
  "status3TitleKW \<noteq> status3TimeKW" "status3TitleKW \<noteq> status3HeaderKW"
  "status3TimeKW \<noteq> status3HeaderKW" "status3HeaderKW \<noteq> status3TimeKW"
  "status3TimeKW \<noteq> status3TitleKW" "status3HeaderKW \<noteq> status3TitleKW"
  by (simp_all add: status3_defs)

lemma row_fields_Cons: "row_fields kw (l # ls) = row_fields kw [l] @ row_fields kw ls"
  by (simp add: row_fields_def)

lemma row_fields_one:
  "row_fields kw [line] =
     (if hd (Split line status3FieldSep) = kw then [drop 1 (Split line status3FieldSep)] else [])"
  by (simp add: row_fields_def elem_at_Split)

lemma status3_lines_Cons:
  "(line_panics line \<and> status3_lines pip (line # rest) se0 = None)
   \<or> (line_stops line \<and> \<not> line_panics line
        \<and> row_fields status3ClientListKW [line] = []
        \<and> row_fields status3RoutingTableKW [line] = []
        \<and> (\<exists>se' e. status3_lines pip (line # rest) se0 = Some (se', Some e)
              \<and> clients se' = clients se0 \<and> invalidClients se' = invalidClients se0
              \<and> routes se' = routes se0 \<and> invalidRoutes se' = invalidRoutes se0))
   \<or> (\<not> line_stops line \<and> \<not> line_panics line
        \<and> (\<exists>se'. status3_lines pip (line # rest) se0 = status3_lines pip rest se'
              \<and> (\<exists>cs. map (NewStatus3Client pip) (row_fields status3ClientListKW [line])
                         = map Some cs
                    \<and> clients se' = clients se0 @ filter (\<lambda>c. Status3Client.errs c = []) cs
                    \<and> invalidClients se' =
                        invalidClients se0 @ filter (\<lambda>c. Status3Client.errs c \<noteq> []) cs)
              \<and> (\<exists>rs. map (NewStatus3Route pip) (row_fields status3RoutingTableKW [line])
                         = map Some rs
                    \<and> routes se' = routes se0 @ filter (\<lambda>r. Status3Route.errs r = []) rs
                    \<and> invalidRoutes se' =
                        invalidRoutes se0 @ filter (\<lambda>r. Status3Route.errs r \<noteq> []) rs)))"
proof -
  define lt where "lt = hd (Split line status3FieldSep)"
  define lf where "lf = drop 1 (Split line status3FieldSep)"
  have el: "elem_at (Split line status3FieldSep) 0 = Some lt"
    by (simp add: lt_def elem_at_Split)
  have rf: "row_fields kw [line] = (if lt = kw then [lf] else [])" for kw
    by (simp add: row_fields_one lt_def lf_def)
  have pn: "line_panics line =
      ((lt = status3TimeKW \<and> length lf < 2) \<or> (lt = status3HeaderKW \<and> lf = []))"
    unfolding line_panics_def Let_def lt_def lf_def ..
  have st: "line_stops line =
      (lt = status3TimeKW \<and> 2 \<le> length lf \<and> snd (ParseInt (lf ! 1)) \<noteq> None)"
    unfolding line_stops_def Let_def lt_def lf_def ..
  have step: "status3_lines pip (line # rest) se0 =
     (if lt = status3TitleKW then
       status3_lines pip rest (se0\<lparr>title := Join lf status3FieldSep\<rparr>)
     else if lt = status3TimeKW then do {
       human \<leftarrow> elem_at lf 0;
       raw \<leftarrow> elem_at lf 1;
       let r = ParseInt raw;
       let se' = se0\<lparr>rawHumanTS := human, rawTS := raw, ts := fst r\<rparr>;
       if snd r \<noteq> None then Some (se', snd r) else status3_lines pip rest se'
     }
     else if lt = status3HeaderKW then do {
       headerType \<leftarrow> elem_at lf 0;
       status3_lines pip rest (se0\<lparr>headers := (headers se0)(headerType \<mapsto> drop 1 lf)\<rparr>)
     }
     else if lt = status3ClientListKW then do {
       c \<leftarrow> NewStatus3Client pip lf;
       if length (Status3Client_ParsingErrors c) > 0
       then status3_lines pip rest (se0\<lparr>invalidClients := invalidClients se0 @ [c]\<rparr>)
       else status3_lines pip rest (se0\<lparr>clients := clients se0 @ [c]\<rparr>)
     }
     else if lt = status3RoutingTableKW then do {
       c \<leftarrow> NewStatus3Route pip lf;
       if length (Status3Route_ParsingErrors c) > 0
       then status3_lines pip rest (se0\<lparr>invalidRoutes := invalidRoutes se0 @ [c]\<rparr>)
       else status3_lines pip rest (se0\<lparr>routes := routes se0 @ [c]\<rparr>)
     }
     else status3_lines pip rest (se0\<lparr>extra := (extra se0)(lt \<mapsto> lf)\<rparr>))"
    by (simp add: el lf_def Let_def)
  consider (title) "lt = status3TitleKW" | (time) "lt = status3TimeKW"
    | (header) "lt = status3HeaderKW" | (client) "lt = status3ClientListKW"
    | (route) "lt = status3RoutingTableKW"
    | (other) "lt \<noteq> status3TitleKW" "lt \<noteq> status3TimeKW" "lt \<noteq> status3HeaderKW"
        "lt \<noteq> status3ClientListKW" "lt \<noteq> status3RoutingTableKW"
    by blast
  then show ?thesis
  proof cases
    case title
    have "status3_lines pip (line # rest) se0 =
        status3_lines pip rest (se0\<lparr>title := Join lf status3FieldSep\<rparr>)"
      unfolding step using title by simp
    moreover have "\<not> line_stops line" "\<not> line_panics line"
      using title by (simp_all add: pn st kw_distinct)
    moreover have "row_fields status3ClientListKW [line] = []"
      "row_fields status3RoutingTableKW [line] = []"
      using title by (simp_all add: rf kw_distinct)
    ultimately show ?thesis by (intro disjI2 conjI exI [of _ "se0\<lparr>title := Join lf status3FieldSep\<rparr>"] exI [of _ "[]"]) simp_all
  next
    case time
    have rfs: "row_fields status3ClientListKW [line] = []"
      "row_fields status3RoutingTableKW [line] = []"
      using time by (simp_all add: rf kw_distinct)
    show ?thesis
    proof (cases "length lf < 2")
      case True
      then have "elem_at lf 0 = None \<or> elem_at lf 1 = None" by (auto simp: elem_at_def)
      then have "status3_lines pip (line # rest) se0 = None"
        unfolding step using time by (auto simp: kw_distinct)
      with True time show ?thesis by (simp add: pn)
    next
      case False
      then have e: "elem_at lf 0 = Some (lf ! 0)" "elem_at lf (Suc 0) = Some (lf ! 1)"
        by (auto simp: elem_at_def)
      have np: "\<not> line_panics line" using False time by (simp add: pn kw_distinct)
      define se' where "se' = se0\<lparr>rawHumanTS := lf ! 0, rawTS := lf ! 1, ts := fst (ParseInt (lf ! 1))\<rparr>"
      have s: "status3_lines pip (line # rest) se0 =
          (if snd (ParseInt (lf ! 1)) \<noteq> None then Some (se', snd (ParseInt (lf ! 1)))
           else status3_lines pip rest se')"
        unfolding step using time by (simp add: e kw_distinct Let_def se'_def)
      have l: "clients se' = clients se0" "invalidClients se' = invalidClients se0"
        "routes se' = routes se0" "invalidRoutes se' = invalidRoutes se0"
        by (simp_all add: se'_def)
      show ?thesis
      proof (cases "snd (ParseInt (lf ! 1)) = None")
        case True
        with False time have "\<not> line_stops line" by (simp add: st)
        moreover from True s have "status3_lines pip (line # rest) se0 = status3_lines pip rest se'"
          by simp
        ultimately show ?thesis using np rfs l
          by (intro disjI2 conjI exI [of _ se'] exI [of _ "[]"]) simp_all
      next
        case ne: False
        then obtain e where "snd (ParseInt (lf ! 1)) = Some e" by auto
        with s have "status3_lines pip (line # rest) se0 = Some (se', Some e)" by simp
        moreover from ne False time have "line_stops line" by (simp add: st)
        ultimately show ?thesis using np rfs l by blast
      qed
    qed
  next
    case header
    have rfs: "row_fields status3ClientListKW [line] = []"
      "row_fields status3RoutingTableKW [line] = []"
      using header by (simp_all add: rf kw_distinct)
    have ns: "\<not> line_stops line" using header by (simp add: st kw_distinct)
    show ?thesis
    proof (cases "lf = []")
      case True
      then have "elem_at lf 0 = None" by (simp add: elem_at_def)
      then have "status3_lines pip (line # rest) se0 = None"
        unfolding step using header by (simp add: kw_distinct)
      with True header show ?thesis by (simp add: pn)
    next
      case False
      then have e: "elem_at lf 0 = Some (lf ! 0)" by (simp add: elem_at_def)
      have np: "\<not> line_panics line" using False header by (simp add: pn kw_distinct)
      define se' where "se' = se0\<lparr>headers := (headers se0)(lf ! 0 \<mapsto> drop 1 lf)\<rparr>"
      have "status3_lines pip (line # rest) se0 = status3_lines pip rest se'"
        unfolding step using header by (simp add: e kw_distinct se'_def)
      moreover have "clients se' = clients se0" "invalidClients se' = invalidClients se0"
        "routes se' = routes se0" "invalidRoutes se' = invalidRoutes se0"
        by (simp_all add: se'_def)
      ultimately show ?thesis using np ns rfs
        by (intro disjI2 conjI exI [of _ se'] exI [of _ "[]"]) simp_all
    qed
  next
    case client
    obtain c where c: "NewStatus3Client pip lf = Some c"
      using NewStatus3Client_total by blast
    define se' where "se' = (if Status3Client.errs c = []
        then se0\<lparr>clients := clients se0 @ [c]\<rparr>
        else se0\<lparr>invalidClients := invalidClients se0 @ [c]\<rparr>)"
    have "status3_lines pip (line # rest) se0 = status3_lines pip rest se'"
      unfolding step using client
      by (simp add: c kw_distinct se'_def Status3Client_ParsingErrors_def)
    moreover have "\<not> line_stops line" "\<not> line_panics line"
      using client by (simp_all add: pn st kw_distinct)
    moreover have "row_fields status3ClientListKW [line] = [lf]"
      "row_fields status3RoutingTableKW [line] = []"
      using client by (simp_all add: rf kw_distinct)
    moreover have "clients se' = clients se0 @ filter (\<lambda>c. Status3Client.errs c = []) [c]"
      "invalidClients se' = invalidClients se0 @ filter (\<lambda>c. Status3Client.errs c \<noteq> []) [c]"
      "routes se' = routes se0" "invalidRoutes se' = invalidRoutes se0"
      by (simp_all add: se'_def)
    ultimately show ?thesis using c
      by (intro disjI2 conjI exI [of _ se'] exI [of _ "[c]"] exI [of _ "[]"]) simp_all
  next
    case route
    obtain c where c: "NewStatus3Route pip lf = Some c"
      using NewStatus3Route_total by blast
    define se' where "se' = (if Status3Route.errs c = []
        then se0\<lparr>routes := routes se0 @ [c]\<rparr>
        else se0\<lparr>invalidRoutes := invalidRoutes se0 @ [c]\<rparr>)"
    have "status3_lines pip (line # rest) se0 = status3_lines pip rest se'"
      unfolding step using route
      by (simp add: c kw_distinct se'_def Status3Route_ParsingErrors_def)
    moreover have "\<not> line_stops line" "\<not> line_panics line"
      using route by (simp_all add: pn st kw_distinct)
    moreover have "row_fields status3ClientListKW [line] = []"
      "row_fields status3RoutingTableKW [line] = [lf]"
      using route by (simp_all add: rf kw_distinct)
    moreover have "routes se' = routes se0 @ filter (\<lambda>c. Status3Route.errs c = []) [c]"
      "invalidRoutes se' = invalidRoutes se0 @ filter (\<lambda>c. Status3Route.errs c \<noteq> []) [c]"
      "clients se' = clients se0" "invalidClients se' = invalidClients se0"
      by (simp_all add: se'_def)
    ultimately show ?thesis using c
      by (intro disjI2 conjI exI [of _ se'] exI [of _ "[c]"] exI [of _ "[]"]) simp_all
  next
    case other
    have "status3_lines pip (line # rest) se0 =
        status3_lines pip rest (se0\<lparr>extra := (extra se0)(lt \<mapsto> lf)\<rparr>)"
      unfolding step using other by simp
    moreover have "\<not> line_stops line" "\<not> line_panics line"
      using other by (simp_all add: pn st)
    moreover have "row_fields status3ClientListKW [line] = []"
      "row_fields status3RoutingTableKW [line] = []"
      using other by (simp_all add: rf)
    ultimately show ?thesis
      by (intro disjI2 conjI exI [of _ "se0\<lparr>extra := (extra se0)(lt \<mapsto> lf)\<rparr>"] exI [of _ "[]"]) simp_all
  qed
qed


lemma status3_lines_returns:
  "(status3_lines pip ls se0 = None) = list_ex line_panics (lines_read ls)"
proof (induction ls arbitrary: se0)
  case Nil
  show ?case by simp
next
  case (Cons line rest)
  from status3_lines_Cons [of line pip rest se0] show ?case
    by (elim disjE conjE exE) (simp_all add: Cons.IH)
qed

lemma status3_lines_err:
  "status3_lines pip ls se0 = Some (se, err) \<Longrightarrow>
   (err = None) = (\<not> list_ex line_stops (lines_read ls)) \<and> (err = None \<longrightarrow> lines_read ls = ls)"
proof (induction ls arbitrary: se0)
  case Nil
  then show ?case by simp
next
  case (Cons line rest)
  from status3_lines_Cons [of line pip rest se0] Cons.prems show ?case
  proof (elim disjE conjE exE, goal_cases)
    case 1
    then show ?case by simp
  next
    case (2 se' e)
    then show ?case by simp
  next
    case (3 se' cs rs)
    then have "status3_lines pip rest se' = Some (se, err)" by simp
    from Cons.IH [OF this] 3 show ?case by simp
  qed
qed

lemma status3_lines_clients:
  "status3_lines pip ls se0 = Some (se, err) \<Longrightarrow>
   \<exists>cs. map (NewStatus3Client pip) (row_fields status3ClientListKW (lines_read ls)) = map Some cs
      \<and> clients se = clients se0 @ filter (\<lambda>c. Status3Client.errs c = []) cs
      \<and> invalidClients se = invalidClients se0 @ filter (\<lambda>c. Status3Client.errs c \<noteq> []) cs"
proof (induction ls arbitrary: se0)
  case Nil
  then show ?case by (simp add: row_fields_def)
next
  case (Cons line rest)
  from status3_lines_Cons [of line pip rest se0] Cons.prems show ?case
  proof (elim disjE conjE exE, goal_cases)
    case 1
    then show ?case by simp
  next
    case (2 se' e)
    then show ?case by simp
  next
    case (3 se' cs rs)
    then have "status3_lines pip rest se' = Some (se, err)" by simp
    from Cons.IH [OF this] obtain cs' where
      "map (NewStatus3Client pip) (row_fields status3ClientListKW (lines_read rest)) = map Some cs'"
      "clients se = clients se' @ filter (\<lambda>c. Status3Client.errs c = []) cs'"
      "invalidClients se = invalidClients se' @ filter (\<lambda>c. Status3Client.errs c \<noteq> []) cs'"
      by blast
    with 3 show ?case
      by (intro exI [of _ "cs @ cs'"]) (simp add: row_fields_Cons [of _ line "lines_read rest"])
  qed
qed

lemma status3_lines_routes:
  "status3_lines pip ls se0 = Some (se, err) \<Longrightarrow>
   \<exists>rs. map (NewStatus3Route pip) (row_fields status3RoutingTableKW (lines_read ls)) = map Some rs
      \<and> routes se = routes se0 @ filter (\<lambda>r. Status3Route.errs r = []) rs
      \<and> invalidRoutes se = invalidRoutes se0 @ filter (\<lambda>r. Status3Route.errs r \<noteq> []) rs"
proof (induction ls arbitrary: se0)
  case Nil
  then show ?case by (simp add: row_fields_def)
next
  case (Cons line rest)
  from status3_lines_Cons [of line pip rest se0] Cons.prems show ?case
  proof (elim disjE conjE exE, goal_cases)
    case 1
    then show ?case by simp
  next
    case (2 se' e)
    then show ?case by simp
  next
    case (3 se' cs rs)
    then have "status3_lines pip rest se' = Some (se, err)" by simp
    from Cons.IH [OF this] obtain rs' where
      "map (NewStatus3Route pip) (row_fields status3RoutingTableKW (lines_read rest)) = map Some rs'"
      "routes se = routes se' @ filter (\<lambda>r. Status3Route.errs r = []) rs'"
      "invalidRoutes se = invalidRoutes se' @ filter (\<lambda>r. Status3Route.errs r \<noteq> []) rs'"
      by blast
    with 3 show ?case
      by (intro exI [of _ "rs @ rs'"]) (simp add: row_fields_Cons [of _ line "lines_read rest"])
  qed
qed

lemma foldl_append_err_Nil:
  "(foldl append_err acc es = []) = (acc = [] \<and> list_all (\<lambda>e. e = None) es)"
  by (induction es arbitrary: acc) (auto simp: append_err_def split: option.splits)

lemma NewStatus3Client_errs:
  "NewStatus3Client pip flds = Some c \<Longrightarrow>
   (Status3Client.errs c = []) = client_fields_ok pip flds"
  by (auto simp: NewStatus3Client_def client_fields_ok_def Let_def elem_at_pad CL_defs
      foldl_append_err_Nil simp del: foldl.simps)

lemma NewStatus3Route_errs:
  "NewStatus3Route pip flds = Some r \<Longrightarrow>
   (Status3Route.errs r = []) = route_fields_ok pip flds"
  by (auto simp: NewStatus3Route_def route_fields_ok_def Let_def elem_at_pad RT_defs
      foldl_append_err_Nil simp del: foldl.simps)

lemma NewStatus3Client_eq:
  "NewStatus3Client pip flds =
     Some \<lparr>Status3Client.CommonName = pad_fields CLHeaderMax flds ! CLCommonName,
           Status3Client.RealAddr = fst (ParseIPAddrPort pip (pad_fields CLHeaderMax flds ! CLRealAddr)),
           VirtualAddr = SafeParseIP4Addr pip (pad_fields CLHeaderMax flds ! CLVirtualAddr),
           VirtualAddr6 = SafeParseIP6Addr pip (pad_fields CLHeaderMax flds ! CLVirtualAddr6),
           BytesRecv = fst (ParseInt (pad_fields CLHeaderMax flds ! CLBytesRecv)),
           BytesSent = fst (ParseInt (pad_fields CLHeaderMax flds ! CLBytesSent)),
           ConnectedSinceRaw = pad_fields CLHeaderMax flds ! CLConnectedSinceRaw,
           ConnectedSinceTimestamp =
             fst (ParseInt (pad_fields CLHeaderMax flds ! CLConnectedSinceTimestamp)),
           Username = pad_fields CLHeaderMax flds ! CLUsername,
           ClientId = fst (ParseInt (pad_fields CLHeaderMax flds ! CLClientId)),
           PeerId = fst (ParseInt (pad_fields CLHeaderMax flds ! CLPeerId)),
           DataChannelCipher = pad_fields CLHeaderMax flds ! CLDataChannelCipher,
           Status3Client.errs =
             foldl append_err []
               [snd (ParseIPAddrPort pip (pad_fields CLHeaderMax flds ! CLRealAddr)),
                snd (ParseInt (pad_fields CLHeaderMax flds ! CLBytesRecv)),
                snd (ParseInt (pad_fields CLHeaderMax flds ! CLBytesSent)),
                snd (ParseInt (pad_fields CLHeaderMax flds ! CLConnectedSinceTimestamp)),
                snd (ParseInt (pad_fields CLHeaderMax flds ! CLClientId)),
                snd (ParseInt (pad_fields CLHeaderMax flds ! CLPeerId))]\<rparr>"
  unfolding NewStatus3Client_def Let_def
  by (simp add: elem_at_pad CL_defs del: foldl.simps)

lemma NewStatus3Client_addrs:
  "NewStatus3Client pip flds = Some c \<Longrightarrow>
   VirtualAddr c = SafeParseIP4Addr pip (pad_fields CLHeaderMax flds ! CLVirtualAddr)
   \<and> VirtualAddr6 c = SafeParseIP6Addr pip (pad_fields CLHeaderMax flds ! CLVirtualAddr6)"
  unfolding NewStatus3Client_eq by auto

lemma pad_fields_update_nth:
  "j \<noteq> i \<Longrightarrow> pad_fields m (flds[i := v]) ! j = pad_fields m flds ! j"
  by (auto simp: pad_fields_def nth_append nth_list_update)

lemma client_fields_ok_addrs:
  "client_fields_ok pip (flds[CLVirtualAddr := v, CLVirtualAddr6 := v6])
     = client_fields_ok pip flds"
  by (simp add: client_fields_ok_def Let_def pad_fields_update_nth CL_defs)

text \<open>
  Claim C7, as amended. \<open>NewStatus3Event\<close> reads the payload line by line. It returns
  unless a line it gets to is a \<open>TIME\<close> or \<open>HEADER\<close> line too short to index, and it
  stops early, returning the snapshot so far with the error, at the first \<open>TIME\<close> line
  whose time stamp does not parse; with no error returned it has read every line. The
  \<open>CLIENT_LIST\<close> rows among the lines read are split between the valid and the invalid
  list, in order, and so are the \<open>ROUTING_TABLE\<close> rows: each row is in exactly one of
  its two lists, as its constructor built it, with every field value and the list of
  errors, and it is in the invalid list if and only if the constructor recorded an error.
  The row constructors return for every field list. A client row records an error exactly
  when its real address, one of its two byte counts, its connection time stamp, its client
  id or its peer id fails to parse; a route row when its real address or its time stamp
  fails. The two virtual addresses of a client row are read by \<open>SafeParseIP4Addr\<close> and
  \<open>SafeParseIP6Addr\<close>, which put the zero address in place of text that does not parse
  and record nothing: whatever text stands in these two fields, the row records the same
  errors.
\<close>

theorem status3_rows_partition:
  "(NewStatus3Event pip payload = None \<longleftrightarrow> list_ex line_panics (lines_read payload))
   \<and> (\<forall>se err. NewStatus3Event pip payload = Some (se, err) \<longrightarrow>
         (err = None) = (\<not> list_ex line_stops (lines_read payload))
       \<and> (err = None \<longrightarrow> lines_read payload = payload)
       \<and> (\<exists>cs. map (NewStatus3Client pip) (row_fields status3ClientListKW (lines_read payload))
                  = map Some cs
             \<and> clients se = filter (\<lambda>c. Status3Client.errs c = []) cs
             \<and> invalidClients se = filter (\<lambda>c. Status3Client.errs c \<noteq> []) cs)
       \<and> (\<exists>rs. map (NewStatus3Route pip) (row_fields status3RoutingTableKW (lines_read payload))
                  = map Some rs
             \<and> routes se = filter (\<lambda>r. Status3Route.errs r = []) rs
             \<and> invalidRoutes se = filter (\<lambda>r. Status3Route.errs r \<noteq> []) rs))
   \<and> (\<forall>flds. \<exists>c. NewStatus3Client pip flds = Some c
         \<and> (Status3Client.errs c = []) = client_fields_ok pip flds
         \<and> VirtualAddr c = SafeParseIP4Addr pip (pad_fields CLHeaderMax flds ! CLVirtualAddr)
         \<and> VirtualAddr6 c = SafeParseIP6Addr pip (pad_fields CLHeaderMax flds ! CLVirtualAddr6))
   \<and> (\<forall>s. pip s = [] \<longrightarrow>
         SafeParseIP4Addr pip s = pip ''0.0.0.0'' \<and> SafeParseIP6Addr pip s = pip ''::'')
   \<and> (\<forall>flds v v6. client_fields_ok pip (flds[CLVirtualAddr := v, CLVirtualAddr6 := v6])
                     = client_fields_ok pip flds)
   \<and> (\<forall>flds. \<exists>r. NewStatus3Route pip flds = Some r
         \<and> (Status3Route.errs r = []) = route_fields_ok pip flds)"
proof -
  have z: "clients Status3Event_zero = []" "invalidClients Status3Event_zero = []"
    "routes Status3Event_zero = []" "invalidRoutes Status3Event_zero = []"
    by (simp_all add: Status3Event_zero_def)
  have a: "NewStatus3Event pip payload = None \<longleftrightarrow> list_ex line_panics (lines_read payload)"
    by (simp add: NewStatus3Event_def status3_lines_returns)
  have b: "(err = None) = (\<not> list_ex line_stops (lines_read payload))
       \<and> (err = None \<longrightarrow> lines_read payload = payload)
       \<and> (\<exists>cs. map (NewStatus3Client pip) (row_fields status3ClientListKW (lines_read payload))
                  = map Some cs
             \<and> clients se = filter (\<lambda>c. Status3Client.errs c = []) cs
             \<and> invalidClients se = filter (\<lambda>c. Status3Client.errs c \<noteq> []) cs)
       \<and> (\<exists>rs. map (NewStatus3Route pip) (row_fields status3RoutingTableKW (lines_read payload))
                  = map Some rs
             \<and> routes se = filter (\<lambda>r. Status3Route.errs r = []) rs
             \<and> invalidRoutes se = filter (\<lambda>r. Status3Route.errs r \<noteq> []) rs)"
    if "NewStatus3Event pip payload = Some (se, err)" for se err
  proof -
    from that have l: "status3_lines pip payload Status3Event_zero = Some (se, err)"
      by (simp add: NewStatus3Event_def)
    from status3_lines_err [OF l] status3_lines_clients [OF l] status3_lines_routes [OF l]
    show ?thesis by (simp add: z)
  qed
  have c: "\<exists>c. NewStatus3Client pip flds = Some c
         \<and> (Status3Client.errs c = []) = client_fields_ok pip flds
         \<and> VirtualAddr c = SafeParseIP4Addr pip (pad_fields CLHeaderMax flds ! CLVirtualAddr)
         \<and> VirtualAddr6 c = SafeParseIP6Addr pip (pad_fields CLHeaderMax flds ! CLVirtualAddr6)"
    for flds
    using NewStatus3Client_total [of pip flds] NewStatus3Client_errs NewStatus3Client_addrs
    by blast
  have r: "\<exists>r. NewStatus3Route pip flds = Some r
         \<and> (Status3Route.errs r = []) = route_fields_ok pip flds" for flds
    using NewStatus3Route_total [of pip flds] NewStatus3Route_errs by blast
  have s: "pip s = [] \<longrightarrow>
         SafeParseIP4Addr pip s = pip ''0.0.0.0'' \<and> SafeParseIP6Addr pip s = pip ''::''" for s
    by (simp add: SafeParseIP4Addr_def SafeParseIP6Addr_def)
  from a b c r s client_fields_ok_addrs show ?thesis by blast
qed

subsection \<open>The sample rows\<close>

lemma sample_hostport:
  "SplitHostPort ''203.0.113.7:51820'' = (''203.0.113.7'', ''51820'', None)"
  by (simp add: SplitHostPort_def SplitHostPort_rest_def LastIndexByte_def)

lemma sample_octets:
  "parseOctet ''203'' = Some 203" "parseOctet ''0'' = Some 0" "parseOctet ''113'' = Some 113"
  "parseOctet ''7'' = Some 7" "parseOctet ''10'' = Some 10" "parseOctet ''8'' = Some 8"
  "parseOctet ''2'' = Some 2" "parseOctet [] = None"
  by (simp_all add: parseOctet_def isDigit_def digitVal_def maxUint64_def)

lemma sample_dots:
  "Split ''203.0.113.7'' ''.'' = [''203'', ''0'', ''113'', ''7'']"
  "Split ''10.8.0.2'' ''.'' = [''10'', ''8'', ''0'', ''2'']"
  "Split [] ''.'' = [[]]"
  "Split ''0.0.0.0'' ''.'' = [''0'', ''0'', ''0'', ''0'']"
  by (simp_all add: Split_def SplitN_def)

lemma sample_ips:
  "ParseIP_sample ''203.0.113.7'' = [0, 0, 0, 0, 0, 0, 0, 0, 0, 0, 0xff, 0xff, 203, 0, 113, 7]"
  "ParseIP_sample ''10.8.0.2'' = [0, 0, 0, 0, 0, 0, 0, 0, 0, 0, 0xff, 0xff, 10, 8, 0, 2]"
  "ParseIP_sample [] = []"
  "ParseIP_sample ''0.0.0.0'' = [0, 0, 0, 0, 0, 0, 0, 0, 0, 0, 0xff, 0xff, 0, 0, 0, 0]"
  "ParseIP_sample ''::'' = [0, 0, 0, 0, 0, 0, 0, 0, 0, 0, 0, 0, 0, 0, 0, 0]"
  by (simp_all add: ParseIP_sample_def sample_dots sample_octets)

lemma sample_ints:
  "ParseInt ''1000'' = (1000, None)" "ParseInt ''2000'' = (2000, None)"
  "ParseInt ''1584986002'' = (1584986002, None)" "ParseInt ''0'' = (0, None)"
  "ParseInt ''51820'' = (51820, None)"
  "ParseInt [] = (0, Some (NumError ''ParseInt'' [] ErrSyntax))"
  by (simp_all add: ParseInt_def ParseUint_def isDigit_def digitVal_def maxUint64_def)

lemma sample_realaddr:
  "ParseIPAddrPort ParseIP_sample ''203.0.113.7:51820'' =
     (Some \<lparr>IP = [0, 0, 0, 0, 0, 0, 0, 0, 0, 0, 0xff, 0xff, 203, 0, 113, 7], Port = 51820\<rparr>,
      None)"
  by (simp add: ParseIPAddrPort_def sample_hostport ParseIPAddr_def sample_ips Atoi_def
      sample_ints)

lemma sample_realaddr_empty:
  "ParseIPAddrPort pip [] = (None, Some (AddrError ''missing port in address'' []))"
  by (simp add: ParseIPAddrPort_def SplitHostPort_def LastIndexByte_def addrErr_def
      missingPort_def)

lemma sample_pad:
  "pad_fields CLHeaderMax
     [''client1'', ''203.0.113.7:51820'', ''10.8.0.2'', [], ''1000'', ''2000'',
      ''Mon Mar 23 17:53:22 2020'', ''1584986002'', ''UNDEF'', ''0'', ''0'', ''AES-256-GCM''] =
     [''client1'', ''203.0.113.7:51820'', ''10.8.0.2'', [], ''1000'', ''2000'',
      ''Mon Mar 23 17:53:22 2020'', ''1584986002'', ''UNDEF'', ''0'', ''0'', ''AES-256-GCM'']"
  "pad_fields CLHeaderMax [''client2''] = [''client2'', [], [], [], [], [], [], [], [], [], [], []]"
  by (simp_all add: pad_fields_def CLHeaderMax_def numeral_eq_Suc)

lemma sample_client_ok:
  "NewStatus3Client ParseIP_sample
     [''client1'', ''203.0.113.7:51820'', ''10.8.0.2'', [], ''1000'', ''2000'',
      ''Mon Mar 23 17:53:22 2020'', ''1584986002'', ''UNDEF'', ''0'', ''0'', ''AES-256-GCM''] =
   Some sample_client_valid"
  unfolding NewStatus3Client_eq sample_pad sample_client_valid_def
  by (simp add: CL_defs sample_realaddr sample_ints sample_ips SafeParseIP4Addr_def
      SafeParseIP6Addr_def append_err_def)

lemma sample_client_short:
  "NewStatus3Client ParseIP_sample [''client2''] = Some sample_client_invalid"
  unfolding NewStatus3Client_eq sample_pad sample_client_invalid_def
  by (simp add: CL_defs sample_realaddr_empty sample_ints sample_ips SafeParseIP4Addr_def
      SafeParseIP6Addr_def append_err_def)

lemma sample_split:
  "Split sample_row_ok status3FieldSep =
     [''CLIENT_LIST'', ''client1'', ''203.0.113.7:51820'', ''10.8.0.2'', [], ''1000'', ''2000'',
      ''Mon Mar 23 17:53:22 2020'', ''1584986002'', ''UNDEF'', ''0'', ''0'', ''AES-256-GCM'']"
  "Split sample_row_short status3FieldSep = [''CLIENT_LIST'', ''client2'']"
  by (simp_all add: sample_row_ok_def sample_row_short_def status3FieldSep_def Split_def
      SplitN_def)


lemmas status3KW_defs = status3TitleKW_def status3TimeKW_def status3HeaderKW_def
  status3ClientListKW_def status3RoutingTableKW_def

lemma sample_errs:
  "Status3Client.errs sample_client_valid = []" "Status3Client.errs sample_client_invalid \<noteq> []"
  by (simp_all add: sample_client_valid_def sample_client_invalid_def)

lemma sample_event:
  "NewStatus3Event ParseIP_sample [sample_row_ok, sample_row_short] =
     Some (Status3Event_zero\<lparr>clients := [sample_client_valid],
                              invalidClients := [sample_client_invalid]\<rparr>, None)"
  by (simp add: NewStatus3Event_def sample_split elem_at_def status3KW_defs sample_client_ok
      sample_client_short Status3Client_ParsingErrors_def sample_errs Status3Event_zero_def)

lemma sample_event_one:
  "NewStatus3Event ParseIP_sample [sample_row_ok] =
     Some (Status3Event_zero\<lparr>clients := [sample_client_valid]\<rparr>, None)"
  by (simp add: NewStatus3Event_def sample_split elem_at_def status3KW_defs sample_client_ok
      Status3Client_ParsingErrors_def sample_errs Status3Event_zero_def)

lemma sample_row_fields:
  "row_fields status3ClientListKW [sample_row_ok, sample_row_short] =
     [[''client1'', ''203.0.113.7:51820'', ''10.8.0.2'', [], ''1000'', ''2000'',
       ''Mon Mar 23 17:53:22 2020'', ''1584986002'', ''UNDEF'', ''0'', ''0'', ''AES-256-GCM''],
      [''client2'']]"
  by (simp add: row_fields_def sample_split elem_at_def status3ClientListKW_def)

lemma sample_lines_read:
  "lines_read [sample_row_ok, sample_row_short] = [sample_row_ok, sample_row_short]"
  by (simp add: line_panics_def line_stops_def sample_split status3KW_defs)

theorem status3_rows_partition_witness:
  "NewStatus3Event ParseIP_sample [sample_row_ok, sample_row_short] =
     Some (Status3Event_zero\<lparr>clients := [sample_client_valid],
                              invalidClients := [sample_client_invalid]\<rparr>, None)
   \<and> lines_read [sample_row_ok, sample_row_short] = [sample_row_ok, sample_row_short]
   \<and> map (NewStatus3Client ParseIP_sample)
         (row_fields status3ClientListKW (lines_read [sample_row_ok, sample_row_short]))
       = map Some [sample_client_valid, sample_client_invalid]
   \<and> clients (Status3Event_zero\<lparr>clients := [sample_client_valid],
                                 invalidClients := [sample_client_invalid]\<rparr>)
       = filter (\<lambda>c. Status3Client.errs c = []) [sample_client_valid, sample_client_invalid]
   \<and> invalidClients (Status3Event_zero\<lparr>clients := [sample_client_valid],
                                        invalidClients := [sample_client_invalid]\<rparr>)
       = filter (\<lambda>c. Status3Client.errs c \<noteq> []) [sample_client_valid, sample_client_invalid]
   \<and> \<not> client_fields_ok ParseIP_sample [''client2'']
   \<and> ParseIP_sample [] = []
   \<and> SafeParseIP6Addr ParseIP_sample [] = ParseIP_sample ''::''"
proof -
  have h: "NewStatus3Event ParseIP_sample [sample_row_ok, sample_row_short] =
     Some (Status3Event_zero\<lparr>clients := [sample_client_valid],
                              invalidClients := [sample_client_invalid]\<rparr>, None)"
    by (rule sample_event)
  have m: "map (NewStatus3Client ParseIP_sample)
         (row_fields status3ClientListKW (lines_read [sample_row_ok, sample_row_short]))
       = map Some [sample_client_valid, sample_client_invalid]"
    by (simp only: sample_lines_read sample_row_fields)
       (simp add: sample_client_ok sample_client_short)
  from status3_rows_partition [of ParseIP_sample "[sample_row_ok, sample_row_short]"] h
  obtain cs where cs:
    "map (NewStatus3Client ParseIP_sample)
         (row_fields status3ClientListKW (lines_read [sample_row_ok, sample_row_short]))
       = map Some cs"
    "clients (Status3Event_zero\<lparr>clients := [sample_client_valid],
                                 invalidClients := [sample_client_invalid]\<rparr>)
       = filter (\<lambda>c. Status3Client.errs c = []) cs"
    "invalidClients (Status3Event_zero\<lparr>clients := [sample_client_valid],
                                        invalidClients := [sample_client_invalid]\<rparr>)
       = filter (\<lambda>c. Status3Client.errs c \<noteq> []) cs"
    by blast
  from cs(1) m have "map Some cs = map Some [sample_client_valid, sample_client_invalid]"
    by simp
  then have e: "cs = [sample_client_valid, sample_client_invalid]"
    by (simp add: map_eq_Cons_conv)
  from status3_rows_partition [of ParseIP_sample "[sample_row_ok, sample_row_short]"]
  obtain c where "NewStatus3Client ParseIP_sample [''client2''] = Some c"
    "(Status3Client.errs c = []) = client_fields_ok ParseIP_sample [''client2'']"
    by blast
  then have f: "\<not> client_fields_ok ParseIP_sample [''client2'']"
    by (simp add: sample_client_short sample_errs)
  have n: "ParseIP_sample [] = []" by (simp add: sample_ips)
  from status3_rows_partition [of ParseIP_sample "[sample_row_ok, sample_row_short]"] n
  have g: "SafeParseIP6Addr ParseIP_sample [] = ParseIP_sample ''::''" by blast
  from h m cs(2,3) e f n g show ?thesis
    by (simp only: sample_lines_read) simp
qed

text \<open>
  The claim as stated fails: the sample row has an empty IPv6 address field, which does not
  parse, and is in the valid list all the same.
\<close>

theorem unparsed_address_row_is_valid:
  "elem_at (Split sample_row_ok status3FieldSep) (Suc CLVirtualAddr6) = Some []
   \<and> ParseIP_sample [] = []
   \<and> NewStatus3Event ParseIP_sample [sample_row_ok] =
       Some (Status3Event_zero\<lparr>clients := [sample_client_valid]\<rparr>, None)
   \<and> invalidClients (Status3Event_zero\<lparr>clients := [sample_client_valid]\<rparr>) = []"
  by (simp add: sample_split elem_at_def CLVirtualAddr6_def sample_ips sample_event_one
      Status3Event_zero_def)

text \<open>
  Rows after a \<open>TIME\<close> line whose time stamp does not parse are not read: the snapshot is
  returned with the error and with both client lists empty.
\<close>

lemma sample_time_split:
  "Split sample_time_bad status3FieldSep = [''TIME'', ''Mon Mar 23 17:53:22 2020'', ''soon'']"
  by (simp add: sample_time_bad_def status3FieldSep_def Split_def SplitN_def)

lemma sample_time_int: "ParseInt ''soon'' = (0, Some (NumError ''ParseInt'' ''soon'' ErrSyntax))"
  by (simp add: ParseInt_def ParseUint_def isDigit_def digitVal_def maxUint64_def)

lemma rows_after_bad_time_unread:
  "NewStatus3Event pip [sample_time_bad, sample_row_ok, sample_row_short] =
     Some (Status3Event_zero\<lparr>rawHumanTS := ''Mon Mar 23 17:53:22 2020'', rawTS := ''soon''\<rparr>,
           Some (NumError ''ParseInt'' ''soon'' ErrSyntax))
   \<and> lines_read [sample_time_bad, sample_row_ok, sample_row_short] = [sample_time_bad]"
  by (simp add: NewStatus3Event_def sample_time_split elem_at_def status3KW_defs
      sample_time_int Status3Event_zero_def line_panics_def line_stops_def)

end
